theory Spec2Isabelle
  imports Main "HOL-Library.List_Lexorder" "HOL-Library.Char_ord"
begin

section \<open>Python values used by main.py\<close>

text \<open>
  Strings are lists of characters; a \<^typ>\<open>char\<close> stands for a code point below 256.
  Lists of characters are ordered lexicographically by code point, as Python compares
  \<^verbatim>\<open>str\<close> values.
\<close>

subsection \<open>Dictionaries\<close>

text \<open>
  A Python \<^verbatim>\<open>dict\<close> keeps its keys in insertion order; assigning to a key that is
  present replaces the value in place, assigning to a new key appends it.
\<close>

type_synonym ('k, 'v) dict = "('k \<times> 'v) list"

fun dict_set :: "'k \<Rightarrow> 'v \<Rightarrow> ('k, 'v) dict \<Rightarrow> ('k, 'v) dict" where
  "dict_set k v [] = [(k, v)]"
| "dict_set k v (p # ps) = (if fst p = k then (k, v) # ps else p # dict_set k v ps)"

definition dict_get :: "('k, 'v) dict \<Rightarrow> 'k \<Rightarrow> 'v option" where
  "dict_get d k = map_of d k"

definition dict_keys :: "('k, 'v) dict \<Rightarrow> 'k list" where
  "dict_keys d = map fst d"

definition dict_values :: "('k, 'v) dict \<Rightarrow> 'v list" where
  "dict_values d = map snd d"

definition dict_contains :: "'k \<Rightarrow> ('k, 'v) dict \<Rightarrow> bool" where
  "dict_contains k d = (k \<in> set (dict_keys d))"

subsection \<open>String operations\<close>

text \<open>\<^verbatim>\<open>str.isspace\<close> on the code points below 256.\<close>

definition isspace :: "char \<Rightarrow> bool" where
  "isspace c =
     (let n = (of_char c :: nat)
      in (9 \<le> n \<and> n \<le> 13) \<or> (28 \<le> n \<and> n \<le> 32) \<or> n = 133 \<or> n = 160)"

definition strip :: "string \<Rightarrow> string" where
  "strip s = rev (dropWhile isspace (rev (dropWhile isspace s)))"

definition startswith :: "string \<Rightarrow> string \<Rightarrow> bool" where
  "startswith s p = (take (length p) s = p)"

text \<open>
  \<^verbatim>\<open>val.split("||")\<close>: the pieces between the non-overlapping occurrences of the
  separator, found from the left. The first argument is the piece being read.
\<close>

fun split_bars :: "string \<Rightarrow> string \<Rightarrow> string list" where
  "split_bars cur (c # d # cs) =
     (if c = CHR ''|'' \<and> d = CHR ''|'' then cur # split_bars [] cs
      else split_bars (cur @ [c]) (d # cs))"
| "split_bars cur [c] = [cur @ [c]]"
| "split_bars cur [] = [cur]"

definition split :: "string \<Rightarrow> string list" where
  "split val = split_bars [] val"

text \<open>
  \<^verbatim>\<open>try: qtext, correct, selected = val.split("||")\<close>
  \<^verbatim>\<open>except Exception: qtext = val; correct = ""; selected = ""\<close>
  Unpacking raises unless the split has exactly three pieces.
\<close>

definition parse_val :: "string \<Rightarrow> string \<times> string \<times> string" where
  "parse_val val =
     (case split val of
        [qtext, correct, selected] \<Rightarrow> (qtext, correct, selected)
      | _ \<Rightarrow> (val, [], []))"

text \<open>The decimal digits of a natural number, for \<^verbatim>\<open>f"q{i}"\<close>.\<close>

definition digit_char :: "nat \<Rightarrow> char" where
  "digit_char d = char_of (48 + d)"

fun str_nat :: "nat \<Rightarrow> string" where
  "str_nat n = (if n < 10 then [digit_char n] else str_nat (n div 10) @ [digit_char (n mod 10)])"

declare str_nat.simps [simp del]

subsection \<open>\<^verbatim>\<open>int(s)\<close> on a string\<close>

datatype py_error = ValueError

definition is_digit :: "char \<Rightarrow> bool" where
  "is_digit c = (let n = (of_char c :: nat) in 48 \<le> n \<and> n \<le> 57)"

definition digit_val :: "char \<Rightarrow> int" where
  "digit_val c = int (of_char c) - 48"

text \<open>The white space \<^verbatim>\<open>int\<close> skips at both ends of its argument.\<close>

definition int_space :: "char \<Rightarrow> bool" where
  "int_space c =
     (let n = (of_char c :: nat) in (9 \<le> n \<and> n \<le> 13) \<or> n = 32 \<or> n = 133 \<or> n = 160)"

text \<open>Digits, with single underscores allowed between two digits.\<close>

fun digits_ok :: "string \<Rightarrow> bool" where
  "digits_ok [] = False"
| "digits_ok [c] = is_digit c"
| "digits_ok (c # d # cs) =
     (is_digit c \<and> (if d = CHR ''_'' then digits_ok cs else digits_ok (d # cs)))"

text \<open>
  The first argument is the interpreter's limit on the number of digits
  (\<^verbatim>\<open>sys.get_int_max_str_digits()\<close>; 0 means no limit). \<open>None\<close> stands for the
  \<^verbatim>\<open>ValueError\<close> that \<^verbatim>\<open>int\<close> raises.
\<close>

definition py_int :: "nat \<Rightarrow> string \<Rightarrow> int option" where
  "py_int max_str_digits s =
     (let t = rev (dropWhile int_space (rev (dropWhile int_space s)));
          neg = (t \<noteq> [] \<and> hd t = CHR ''-'');
          ds = (if t \<noteq> [] \<and> (hd t = CHR ''-'' \<or> hd t = CHR ''+'') then tl t else t);
          n = length (filter is_digit ds)
      in if digits_ok ds \<and> \<not> (0 < max_str_digits \<and> max_str_digits < n)
         then Some ((if neg then - 1 else 1) *
                    foldl (\<lambda>a c. 10 * a + digit_val c) 0 (filter is_digit ds))
         else None)"

subsection \<open>Random choices\<close>

text \<open>
  \<^verbatim>\<open>secrets.choice(seq)\<close> is \<^verbatim>\<open>seq[randbelow(len(seq))]\<close>. The entropy a call
  consumes is a parameter: \<open>r\<close> is the raw draw, reduced below the length. Both
  sequences it is called with are constants and not empty.
\<close>

definition ascii_uppercase :: string where
  "ascii_uppercase = ''ABCDEFGHIJKLMNOPQRSTUVWXYZ''"

definition digits :: string where
  "digits = ''0123456789''"

definition secrets_choice :: "'a list \<Rightarrow> nat \<Rightarrow> 'a" where
  "secrets_choice seq r = seq ! (r mod length seq)"

text \<open>\<open>rnd i\<close> is the draw of the \<open>i\<close>-th iteration of the generator expression.\<close>

definition gen_room_code :: "nat \<Rightarrow> (nat \<Rightarrow> nat) \<Rightarrow> string" where
  "gen_room_code n rnd =
     (let alphabet = ascii_uppercase @ digits
      in map (\<lambda>i. secrets_choice alphabet (rnd i)) [0..<n])"

section \<open>The data of the application\<close>

record question =
  question :: string
  answer :: string
  options :: "string list"

text \<open>
  An entry of \<^verbatim>\<open>answers\<close>: the keys \<^verbatim>\<open>"question"\<close> (here \<open>a_question\<close>),
  \<^verbatim>\<open>"correct"\<close>, \<^verbatim>\<open>"selected"\<close> and \<^verbatim>\<open>"is_correct"\<close>.
\<close>

record answer_entry =
  a_question :: string
  correct :: string
  selected :: string
  is_correct :: bool

record player =
  answers :: "(string, answer_entry) dict"
  submitted :: bool

record room =
  domain :: string
  questions :: "question list"
  players :: "(string, player) dict"
  created :: bool

text \<open>
  A row of the leaderboard: the keys \<^verbatim>\<open>"username"\<close>, \<^verbatim>\<open>"score"\<close> and
  \<^verbatim>\<open>"submitted"\<close> (here \<open>row_submitted\<close>).
\<close>

record row =
  username :: string
  score :: nat
  row_submitted :: bool

type_synonym rooms = "(string, room) dict"

definition CATEGORIES :: "(string, nat) dict" where
  "CATEGORIES = [(''general'', 9), (''tech'', 18), (''movies'', 11)]"

text \<open>
  Lines 87 to 96 of \<^verbatim>\<open>single_player_results\<close>, and again lines 188 to 192 of
  \<^verbatim>\<open>room_submit\<close>: the entry made from the value of a field.
\<close>

definition answer_of :: "string \<Rightarrow> answer_entry" where
  "answer_of val =
     (case parse_val val of
        (qtext, corr, sel) \<Rightarrow>
          \<lparr>a_question = qtext, correct = corr, selected = sel, is_correct = (sel = corr)\<rparr>)"

subsection \<open>Submitted forms\<close>

text \<open>
  A form is the list of its fields as sent, each a key with a string value.
  \<^verbatim>\<open>form.keys()\<close> and \<^verbatim>\<open>form.get\<close> read the dictionary built from that list:
  a repeated key keeps its first position and its last value.
\<close>

type_synonym form_data = "(string \<times> string) list"

definition form_dict :: "form_data \<Rightarrow> (string, string) dict" where
  "form_dict items = foldl (\<lambda>d (k, v). dict_set k v d) [] items"

definition form_keys :: "form_data \<Rightarrow> string list" where
  "form_keys form = dict_keys (form_dict form)"

definition form_get :: "form_data \<Rightarrow> string \<Rightarrow> string option" where
  "form_get form k = dict_get (form_dict form) k"

subsection \<open>Responses\<close>

text \<open>
  A response is the template with the values passed to it, or a redirect with its URL.
  \<open>InvalidRoomCode\<close> is \<^verbatim>\<open>room_join.html\<close> with the error "Invalid room code".
\<close>

datatype response =
    InvalidRoomCode
  | RoomJoinPage string string nat
  | RedirectResponse string
  | RoomQuizPage string string "question list" nat
  | RoomResultsPage string "row list" "answer_entry list" "string option" nat
  | SinglePlayerResultsPage "answer_entry list" nat int

section \<open>Single player\<close>

text \<open>The loop of \<^verbatim>\<open>single_player_results\<close> over the sorted keys.\<close>

fun single_answers :: "form_data \<Rightarrow> string list \<Rightarrow> answer_entry list \<Rightarrow> answer_entry list" where
  "single_answers form [] acc = acc"
| "single_answers form (key # keys) acc =
     (case form_get form key of
        None \<Rightarrow> single_answers form keys acc
      | Some val \<Rightarrow>
          if val = [] then single_answers form keys acc
          else single_answers form keys (acc @ [answer_of val]))"

definition single_player_results :: "nat \<Rightarrow> form_data \<Rightarrow> py_error + response" where
  "single_player_results max_str_digits form =
     (case (case form_get form ''total_questions'' of
              None \<Rightarrow> Some 0
            | Some s \<Rightarrow> if s = [] then Some 0 else py_int max_str_digits s) of
        None \<Rightarrow> Inl ValueError
      | Some total_questions \<Rightarrow>
          (let results = single_answers form
                 (sort (filter (\<lambda>k. startswith k ''q'') (form_keys form))) [];
               sc = length (filter is_correct results)
           in Inr (SinglePlayerResultsPage results sc total_questions)))"

section \<open>Rooms\<close>

text \<open>
  Every handler takes the registry \<^verbatim>\<open>ROOMS\<close> and returns it with its response.
  \<open>fetch_questions\<close> is the outcome of the network call for a category key.
\<close>

definition create_room ::
  "(nat \<Rightarrow> nat) \<Rightarrow> (string \<Rightarrow> question list) \<Rightarrow> string \<Rightarrow> rooms \<Rightarrow> response \<times> rooms" where
  "create_room rnd fetch_questions domain0 ROOMS =
     (let domain1 = (if \<not> dict_contains domain0 CATEGORIES then ''general'' else domain0);
          code = gen_room_code 6 rnd;
          qs = fetch_questions domain1
      in (RedirectResponse (''/room/'' @ code),
          dict_set code \<lparr>domain = domain1, questions = qs, players = [], created = True\<rparr>
            ROOMS))"

definition room_join_page :: "string \<Rightarrow> rooms \<Rightarrow> response \<times> rooms" where
  "room_join_page code ROOMS =
     (case dict_get ROOMS code of
        None \<Rightarrow> (InvalidRoomCode, ROOMS)
      | Some room \<Rightarrow> (RoomJoinPage code (domain room) (length (questions room)), ROOMS))"

text \<open>Lines 146 to 148 of \<^verbatim>\<open>room_join\<close>: the name the player is stored under.\<close>

definition join_uname :: "(nat \<Rightarrow> nat) \<Rightarrow> string \<Rightarrow> (string, player) dict \<Rightarrow> string" where
  "join_uname rnd uname0 ps =
     (let uname = (if strip uname0 = [] then ''Player'' else strip uname0)
      in if dict_contains uname ps
         then uname @ ''_'' @ map (\<lambda>i. secrets_choice digits (rnd i)) [0..<3]
         else uname)"

definition room_join :: "(nat \<Rightarrow> nat) \<Rightarrow> string \<Rightarrow> string \<Rightarrow> rooms \<Rightarrow> response \<times> rooms" where
  "room_join rnd code uname0 ROOMS =
     (case dict_get ROOMS code of
        None \<Rightarrow> (InvalidRoomCode, ROOMS)
      | Some room \<Rightarrow>
          (let uname = join_uname rnd uname0 (players room);
               room' = room\<lparr>players :=
                         dict_set uname \<lparr>answers = [], submitted = False\<rparr> (players room)\<rparr>
           in (RedirectResponse (''/room/'' @ code @ ''/quiz?username='' @ uname),
               dict_set code room' ROOMS)))"

definition room_quiz :: "string \<Rightarrow> string \<Rightarrow> rooms \<Rightarrow> response \<times> rooms" where
  "room_quiz code uname ROOMS =
     (case dict_get ROOMS code of
        None \<Rightarrow> (InvalidRoomCode, ROOMS)
      | Some room \<Rightarrow>
          if \<not> dict_contains uname (players room)
          then (RedirectResponse (''/room/'' @ code), ROOMS)
          else (RoomQuizPage code uname (questions room) (length (questions room)), ROOMS))"

text \<open>
  The loop of \<^verbatim>\<open>room_submit\<close> over the keys that start with "q". In the handler a
  missing \<^verbatim>\<open>username\<close> field is \<^verbatim>\<open>None\<close>, which is not a key of the players.
\<close>

fun submit_answers ::
  "form_data \<Rightarrow> string list \<Rightarrow> (string, answer_entry) dict \<Rightarrow> (string, answer_entry) dict" where
  "submit_answers form [] acc = acc"
| "submit_answers form (key # keys) acc =
     (case form_get form key of
        None \<Rightarrow> submit_answers form keys acc
      | Some val \<Rightarrow>
          if val = [] then submit_answers form keys acc
          else submit_answers form keys (dict_set key (answer_of val) acc))"

definition room_submit :: "string \<Rightarrow> form_data \<Rightarrow> rooms \<Rightarrow> response \<times> rooms" where
  "room_submit code form ROOMS =
     (case dict_get ROOMS code of
        None \<Rightarrow> (InvalidRoomCode, ROOMS)
      | Some room \<Rightarrow>
          (case form_get form ''username'' of
             None \<Rightarrow> (RedirectResponse (''/room/'' @ code), ROOMS)
           | Some u \<Rightarrow>
               (case dict_get (players room) u of
                  None \<Rightarrow> (RedirectResponse (''/room/'' @ code), ROOMS)
                | Some info \<Rightarrow>
                    (let ans = submit_answers form
                           (filter (\<lambda>k. startswith k ''q'') (form_keys form)) [];
                         info' = info\<lparr>answers := ans, submitted := True\<rparr>;
                         room' = room\<lparr>players := dict_set u info' (players room)\<rparr>
                     in (RedirectResponse (''/room/'' @ code @ ''/results?username='' @ u),
                         dict_set code room' ROOMS)))))"

text \<open>
  \<^verbatim>\<open>sorted(xs, key=f, reverse=True)\<close>: the list is reversed, sorted by a stable
  ascending sort and reversed again.
\<close>

definition sorted_reverse :: "('a \<Rightarrow> 'k::linorder) \<Rightarrow> 'a list \<Rightarrow> 'a list" where
  "sorted_reverse f xs = rev (sort_key f (rev xs))"

text \<open>Lines 204 to 209 of \<^verbatim>\<open>room_results\<close>: one row for each player, in the order of the dictionary.\<close>

definition player_rows :: "room \<Rightarrow> row list" where
  "player_rows room =
     map (\<lambda>(uname, info).
            \<lparr>username = uname,
             score = length (filter is_correct (dict_values (answers info))),
             row_submitted = submitted info\<rparr>)
         (players room)"

text \<open>Lines 217 to 225: the detailed answers of a player, one for each question.\<close>

definition player_details :: "room \<Rightarrow> player \<Rightarrow> answer_entry list" where
  "player_details room user_details =
     map (\<lambda>i. case dict_get (answers user_details) (''q'' @ str_nat i) of
                 Some a \<Rightarrow> a
               | None \<Rightarrow>
                   \<lparr>a_question =
                      (if i < length (questions room) then question (questions room ! i) else []),
                    correct =
                      (if i < length (questions room) then answer (questions room ! i) else []),
                    selected = [], is_correct = False\<rparr>)
         [0..<length (questions room)]"

definition room_results :: "string \<Rightarrow> string option \<Rightarrow> rooms \<Rightarrow> response \<times> rooms" where
  "room_results code uname ROOMS =
     (case dict_get ROOMS code of
        None \<Rightarrow> (InvalidRoomCode, ROOMS)
      | Some room \<Rightarrow>
          (let players_sorted = sorted_reverse score (player_rows room);
               user_details =
                 (case uname of
                    None \<Rightarrow> None
                  | Some u \<Rightarrow> if u = [] then None else dict_get (players room) u);
               detailed =
                 (case user_details of
                    None \<Rightarrow> []
                  | Some ud \<Rightarrow> player_details room ud)
           in (RoomResultsPage code players_sorted detailed uname (length (questions room)),
               ROOMS)))"

section \<open>Sample data\<close>

text \<open>A registry with one room, two questions and two joined players, and two forms.\<close>

definition example_questions :: "question list" where
  "example_questions =
     [\<lparr>question = ''2 + 2?'', answer = ''4'', options = [''3'', ''4'', ''5'', ''22'']\<rparr>,
      \<lparr>question = ''Capital of France?'', answer = ''Paris'',
       options = [''Paris'', ''Rome'', ''Lyon'', ''Bern'']\<rparr>]"

definition example_room :: room where
  "example_room =
     \<lparr>domain = ''general'', questions = example_questions,
      players = [(''Alice'', \<lparr>answers = [], submitted = False\<rparr>),
                 (''Bob'', \<lparr>answers = [], submitted = False\<rparr>)],
      created = True\<rparr>"

definition example_rooms :: rooms where
  "example_rooms = [(''AAAAAA'', example_room)]"

definition example_tie_room :: room where
  "example_tie_room =
     \<lparr>domain = ''tech'', questions = example_questions,
      players =
        [(''A'', \<lparr>answers = [], submitted = False\<rparr>),
         (''B'', \<lparr>answers = [], submitted = True\<rparr>),
         (''D'', \<lparr>answers = [(''q0'', answer_of ''2 + 2?||4||4'')], submitted = True\<rparr>),
         (''C'', \<lparr>answers = [(''q0'', answer_of ''2 + 2?||4||5'')], submitted = True\<rparr>)],
      created = True\<rparr>"

definition example_form1 :: form_data where
  "example_form1 = [(''username'', ''Alice''), (''q0'', ''2 + 2?||4||5'')]"

definition example_form2 :: form_data where
  "example_form2 =
     [(''username'', ''Alice''), (''q0'', ''2 + 2?||4||4''),
      (''q1'', ''Capital of France?||Paris||Paris'')]"

definition example_form3 :: form_data where
  "example_form3 =
     [(''username'', ''Alice''), (''q0'', ''2 + 2?||4||4''),
      (''q1'', ''Capital of France?||Paris||Paris''), (''q2'', ''extra||x||x'')]"

definition example_calls :: "((nat \<Rightarrow> nat) \<times> (string \<Rightarrow> question list) \<times> string) list" where
  "example_calls = [(\<lambda>i. 1, \<lambda>d. [], ''tech''), (\<lambda>i. 2, \<lambda>d. example_questions, ''sports'')]"

definition example_single_form :: form_data where
  "example_single_form =
     [(''total_questions'', ''4''), (''q1'', ''Capital of France?||Paris||Rome''),
      (''q0'', ''2 + 2?||4||4''), (''q2'', []), (''q3'', ''Largest planet?'')]"

definition example_form4 :: form_data where
  "example_form4 =
     [(''username'', ''Bob''), (''q0'', ''2 + 2?||4||22''),
      (''q1'', ''Capital of France?||Paris||Paris''), (''q2'', ''Largest planet?'')]"

section \<open>Facts about dictionaries\<close>

lemma dict_get_dict_set:
  "dict_get (dict_set k v d) k' = (if k' = k then Some v else dict_get d k')"
  by (induction d) (auto simp: dict_get_def)

lemma dict_set_twice: "dict_set k v (dict_set k v' d) = dict_set k v d"
  by (induction d) auto

lemma dict_contains_get: "dict_contains k d \<longleftrightarrow> dict_get d k \<noteq> None"
  by (simp add: dict_contains_def dict_keys_def dict_get_def map_of_eq_None_iff)

lemma dict_set_absent: "\<not> dict_contains k d \<Longrightarrow> dict_set k v d = d @ [(k, v)]"
  by (induction d) (auto simp: dict_contains_def dict_keys_def)

lemma dict_keys_dict_set:
  "dict_keys (dict_set k v d) = (if dict_contains k d then dict_keys d else dict_keys d @ [k])"
  by (induction d) (auto simp: dict_contains_def dict_keys_def)

lemma map_dict_set_same:
  "dict_get d k = Some v0 \<Longrightarrow> f (k, v) = f (k, v0) \<Longrightarrow> map f (dict_set k v d) = map f d"
  by (induction d) (auto simp: dict_get_def split: if_splits)

lemma player_overwrite:
  "(info :: player)\<lparr>answers := a, submitted := b\<rparr> = \<lparr>answers = a, submitted = b\<rparr>"
  by (cases info) simp

section \<open>Facts about the sample data\<close>

lemma example_rooms_get: "dict_get example_rooms ''AAAAAA'' = Some example_room"
  by (simp add: example_rooms_def dict_get_def)

lemma example_rooms_bad: "dict_get example_rooms ''BADCODE'' = None"
  by (simp add: example_rooms_def dict_get_def)

lemma example_room_alice: "dict_contains ''Alice'' (players example_room)"
  by (simp add: example_room_def dict_contains_def dict_keys_def)

lemma example_room_carol: "\<not> dict_contains ''Carol'' (players example_room)"
  by (simp add: example_room_def dict_contains_def dict_keys_def)

lemma form_get_example1: "form_get example_form1 ''username'' = Some ''Alice''"
  by (simp add: form_get_def form_dict_def dict_get_def example_form1_def)

lemma form_get_example2: "form_get example_form2 ''username'' = Some ''Alice''"
  by (simp add: form_get_def form_dict_def dict_get_def example_form2_def)

section \<open>The handlers that only read\<close>

lemma room_results_state: "snd (room_results code uo ROOMS) = ROOMS"
  by (simp add: room_results_def Let_def split: option.splits)

lemma room_quiz_state: "snd (room_quiz code u ROOMS) = ROOMS"
  by (simp add: room_quiz_def split: option.splits)

lemma room_join_page_state: "snd (room_join_page code ROOMS) = ROOMS"
  by (simp add: room_join_page_def split: option.splits)

section \<open>Failed lookups\<close>

lemma unknown_code_responses:
  assumes "dict_get ROOMS code = None"
  shows "room_join_page code ROOMS = (InvalidRoomCode, ROOMS)"
    and "room_join rnd code u ROOMS = (InvalidRoomCode, ROOMS)"
    and "room_quiz code u ROOMS = (InvalidRoomCode, ROOMS)"
    and "room_submit code form ROOMS = (InvalidRoomCode, ROOMS)"
    and "room_results code uo ROOMS = (InvalidRoomCode, ROOMS)"
  using assms
  by (simp_all add: room_join_page_def room_join_def room_quiz_def room_submit_def
      room_results_def)

lemma room_quiz_unknown_player:
  "dict_get ROOMS code = Some room \<Longrightarrow> \<not> dict_contains u (players room) \<Longrightarrow>
   room_quiz code u ROOMS = (RedirectResponse (''/room/'' @ code), ROOMS)"
  by (simp add: room_quiz_def)

lemma room_submit_unknown_player:
  "dict_get ROOMS code = Some room \<Longrightarrow>
   form_get form ''username'' = None \<or>
     (\<exists>v. form_get form ''username'' = Some v \<and> \<not> dict_contains v (players room)) \<Longrightarrow>
   room_submit code form ROOMS = (RedirectResponse (''/room/'' @ code), ROOMS)"
  by (auto simp: room_submit_def dict_contains_get)

lemma room_join_error_state:
  "fst (room_join rnd code u ROOMS) = InvalidRoomCode \<Longrightarrow> snd (room_join rnd code u ROOMS) = ROOMS"
  by (auto simp: room_join_def Let_def split: option.splits)

lemma room_submit_error_state:
  "fst (room_submit code form ROOMS) = InvalidRoomCode \<or>
   fst (room_submit code form ROOMS) = RedirectResponse (''/room/'' @ code) \<Longrightarrow>
   snd (room_submit code form ROOMS) = ROOMS"
  by (auto simp: room_submit_def Let_def split: option.splits)

text \<open>
  Claim C8. A handler that answers an unknown room code with the "Invalid room code" page,
  or an unknown player with the redirect to the join page, returns the registry as it
  was: \<^verbatim>\<open>room_join_page\<close>, \<^verbatim>\<open>room_quiz\<close> and \<^verbatim>\<open>room_results\<close> never change
  it, and \<^verbatim>\<open>room_join\<close> and \<^verbatim>\<open>room_submit\<close> change it only when they succeed.
\<close>

theorem failed_lookup_keeps_registry:
  "(dict_get ROOMS code = None \<longrightarrow>
      room_join_page code ROOMS = (InvalidRoomCode, ROOMS) \<and>
      room_join rnd code u ROOMS = (InvalidRoomCode, ROOMS) \<and>
      room_quiz code u ROOMS = (InvalidRoomCode, ROOMS) \<and>
      room_submit code form ROOMS = (InvalidRoomCode, ROOMS) \<and>
      room_results code uo ROOMS = (InvalidRoomCode, ROOMS)) \<and>
   (dict_get ROOMS code = Some room \<and> \<not> dict_contains u (players room) \<longrightarrow>
      room_quiz code u ROOMS = (RedirectResponse (''/room/'' @ code), ROOMS)) \<and>
   (dict_get ROOMS code = Some room \<and>
      (form_get form ''username'' = None \<or>
       (\<exists>v. form_get form ''username'' = Some v \<and> \<not> dict_contains v (players room))) \<longrightarrow>
      room_submit code form ROOMS = (RedirectResponse (''/room/'' @ code), ROOMS)) \<and>
   (fst (room_join rnd code u ROOMS) = InvalidRoomCode \<longrightarrow>
      snd (room_join rnd code u ROOMS) = ROOMS) \<and>
   (fst (room_submit code form ROOMS) = InvalidRoomCode \<or>
    fst (room_submit code form ROOMS) = RedirectResponse (''/room/'' @ code) \<longrightarrow>
      snd (room_submit code form ROOMS) = ROOMS) \<and>
   snd (room_join_page code ROOMS) = ROOMS \<and>
   snd (room_quiz code u ROOMS) = ROOMS \<and>
   snd (room_results code uo ROOMS) = ROOMS"
  using unknown_code_responses [of ROOMS code] room_quiz_unknown_player [of ROOMS code room u]
    room_submit_unknown_player [of ROOMS code room form]
    room_join_error_state [of rnd code u ROOMS] room_submit_error_state [of code form ROOMS]
    room_join_page_state [of code ROOMS] room_quiz_state [of code u ROOMS]
    room_results_state [of code uo ROOMS]
  by blast

theorem failed_lookup_keeps_registry_witness:
  "dict_get example_rooms ''BADCODE'' = None \<and>
   room_join_page ''BADCODE'' example_rooms = (InvalidRoomCode, example_rooms) \<and>
   room_join (\<lambda>i. 0) ''BADCODE'' ''Carol'' example_rooms = (InvalidRoomCode, example_rooms) \<and>
   room_submit ''BADCODE'' example_form1 example_rooms = (InvalidRoomCode, example_rooms) \<and>
   room_results ''BADCODE'' None example_rooms = (InvalidRoomCode, example_rooms) \<and>
   dict_get example_rooms ''AAAAAA'' = Some example_room \<and>
   \<not> dict_contains ''Carol'' (players example_room) \<and>
   room_quiz ''AAAAAA'' ''Carol'' example_rooms =
     (RedirectResponse ''/room/AAAAAA'', example_rooms) \<and>
   form_get [(''username'', ''Carol''), (''q0'', ''2 + 2?||4||4'')] ''username'' = Some ''Carol'' \<and>
   room_submit ''AAAAAA'' [(''username'', ''Carol''), (''q0'', ''2 + 2?||4||4'')] example_rooms =
     (RedirectResponse ''/room/AAAAAA'', example_rooms) \<and>
   fst (room_join (\<lambda>i. 0) ''BADCODE'' ''Carol'' example_rooms) = InvalidRoomCode \<and>
   snd (room_join (\<lambda>i. 0) ''BADCODE'' ''Carol'' example_rooms) = example_rooms \<and>
   fst (room_submit ''BADCODE'' example_form1 example_rooms) = InvalidRoomCode \<and>
   snd (room_submit ''BADCODE'' example_form1 example_rooms) = example_rooms"
proof -
  let ?form = "[(''username'', ''Carol''), (''q0'', ''2 + 2?||4||4'')]"
  have g: "form_get ?form ''username'' = Some ''Carol''"
    by code_simp
  note bad = failed_lookup_keeps_registry [of example_rooms "''BADCODE''" "\<lambda>i. 0" "''Carol''"
      example_form1 None example_room]
  note good = failed_lookup_keeps_registry [of example_rooms "''AAAAAA''" "\<lambda>i. 0" "''Carol''"
      ?form None example_room]
  have b: "room_join_page ''BADCODE'' example_rooms = (InvalidRoomCode, example_rooms)"
    "room_join (\<lambda>i. 0) ''BADCODE'' ''Carol'' example_rooms = (InvalidRoomCode, example_rooms)"
    "room_submit ''BADCODE'' example_form1 example_rooms = (InvalidRoomCode, example_rooms)"
    "room_results ''BADCODE'' None example_rooms = (InvalidRoomCode, example_rooms)"
    using bad example_rooms_bad by simp_all
  have q: "room_quiz ''AAAAAA'' ''Carol'' example_rooms =
      (RedirectResponse ''/room/AAAAAA'', example_rooms)"
    using good example_rooms_get example_room_carol by simp
  have s: "room_submit ''AAAAAA'' ?form example_rooms =
      (RedirectResponse ''/room/AAAAAA'', example_rooms)"
    using good example_rooms_get example_room_carol g by simp
  have f: "fst (room_join (\<lambda>i. 0) ''BADCODE'' ''Carol'' example_rooms) = InvalidRoomCode"
    "fst (room_submit ''BADCODE'' example_form1 example_rooms) = InvalidRoomCode"
    by (simp_all add: b)
  have e: "snd (room_join (\<lambda>i. 0) ''BADCODE'' ''Carol'' example_rooms) = example_rooms"
    "snd (room_submit ''BADCODE'' example_form1 example_rooms) = example_rooms"
    using bad f by blast+
  show ?thesis
    using example_rooms_bad example_rooms_get example_room_carol b q g s f e by (intro conjI)
qed

section \<open>Submitting twice\<close>

lemma room_submit_joined:
  assumes "dict_get ROOMS code = Some room" and "dict_get (players room) u = Some info"
    and "form_get form ''username'' = Some u"
  shows "room_submit code form ROOMS =
    (RedirectResponse (''/room/'' @ code @ ''/results?username='' @ u),
     dict_set code
       (room\<lparr>players := dict_set u
          \<lparr>answers = submit_answers form (filter (\<lambda>k. startswith k ''q'') (form_keys form)) [],
           submitted = True\<rparr> (players room)\<rparr>) ROOMS)"
  using assms by (simp add: room_submit_def Let_def player_overwrite)

text \<open>
  Claim C5. For a joined player, a second \<^verbatim>\<open>room_submit\<close> gives the response and the
  registry that the second submission alone gives: the redirect to the results page, the
  player's answers those of the second form, \<open>submitted\<close> true.
\<close>

theorem resubmission_overwrites:
  assumes "dict_get ROOMS code = Some room" and "dict_contains u (players room)"
    and "form_get form1 ''username'' = Some u" and "form_get form2 ''username'' = Some u"
  shows "room_submit code form2 (snd (room_submit code form1 ROOMS)) = room_submit code form2 ROOMS
    \<and> fst (room_submit code form2 (snd (room_submit code form1 ROOMS))) =
        RedirectResponse (''/room/'' @ code @ ''/results?username='' @ u)
    \<and> (\<exists>room'. dict_get (snd (room_submit code form2 (snd (room_submit code form1 ROOMS)))) code
            = Some room'
        \<and> dict_get (players room') u =
            Some \<lparr>answers = submit_answers form2
                              (filter (\<lambda>k. startswith k ''q'') (form_keys form2)) [],
                  submitted = True\<rparr>)"
proof -
  from assms(2) obtain info where info: "dict_get (players room) u = Some info"
    by (auto simp: dict_contains_get)
  let ?a1 = "submit_answers form1 (filter (\<lambda>k. startswith k ''q'') (form_keys form1)) []"
  let ?a2 = "submit_answers form2 (filter (\<lambda>k. startswith k ''q'') (form_keys form2)) []"
  let ?room1 = "room\<lparr>players := dict_set u \<lparr>answers = ?a1, submitted = True\<rparr> (players room)\<rparr>"
  let ?room2 = "room\<lparr>players := dict_set u \<lparr>answers = ?a2, submitted = True\<rparr> (players room)\<rparr>"
  have s1: "room_submit code form1 ROOMS =
      (RedirectResponse (''/room/'' @ code @ ''/results?username='' @ u), dict_set code ?room1 ROOMS)"
    by (rule room_submit_joined [OF assms(1) info assms(3)])
  have s2: "room_submit code form2 ROOMS =
      (RedirectResponse (''/room/'' @ code @ ''/results?username='' @ u), dict_set code ?room2 ROOMS)"
    by (rule room_submit_joined [OF assms(1) info assms(4)])
  have g1: "dict_get (dict_set code ?room1 ROOMS) code = Some ?room1"
    by (simp add: dict_get_dict_set)
  have p1: "dict_get (players ?room1) u = Some \<lparr>answers = ?a1, submitted = True\<rparr>"
    by (simp add: dict_get_dict_set)
  have s12: "room_submit code form2 (dict_set code ?room1 ROOMS) =
      (RedirectResponse (''/room/'' @ code @ ''/results?username='' @ u), dict_set code ?room2 ROOMS)"
    unfolding room_submit_joined [OF g1 p1 assms(4)] by (simp add: dict_set_twice)
  have g2: "dict_get (dict_set code ?room2 ROOMS) code = Some ?room2"
    by (simp add: dict_get_dict_set)
  have p2: "dict_get (players ?room2) u = Some \<lparr>answers = ?a2, submitted = True\<rparr>"
    by (simp add: dict_get_dict_set)
  show ?thesis
    using g2 p2 by (simp add: s1 s2 s12)
qed

theorem resubmission_overwrites_witness:
  "dict_get example_rooms ''AAAAAA'' = Some example_room \<and>
   dict_contains ''Alice'' (players example_room) \<and>
   form_get example_form1 ''username'' = Some ''Alice'' \<and>
   form_get example_form2 ''username'' = Some ''Alice'' \<and>
   room_submit ''AAAAAA'' example_form2 (snd (room_submit ''AAAAAA'' example_form1 example_rooms)) =
     room_submit ''AAAAAA'' example_form2 example_rooms \<and>
   fst (room_submit ''AAAAAA'' example_form2
          (snd (room_submit ''AAAAAA'' example_form1 example_rooms))) =
     RedirectResponse ''/room/AAAAAA/results?username=Alice''"
proof -
  note r = resubmission_overwrites
    [OF example_rooms_get example_room_alice form_get_example1 form_get_example2]
  have c1: "room_submit ''AAAAAA'' example_form2
      (snd (room_submit ''AAAAAA'' example_form1 example_rooms)) =
     room_submit ''AAAAAA'' example_form2 example_rooms"
    using r by (rule conjunct1)
  have c2: "fst (room_submit ''AAAAAA'' example_form2
          (snd (room_submit ''AAAAAA'' example_form1 example_rooms))) =
     RedirectResponse ''/room/AAAAAA/results?username=Alice''"
    using r [THEN conjunct2, THEN conjunct1] by simp
  show ?thesis
    using example_rooms_get example_room_alice form_get_example1 form_get_example2 c1 c2
    by blast
qed

section \<open>The questions of a room\<close>

lemma room_join_questions:
  "map (\<lambda>(c, r). (c, questions r)) (snd (room_join rnd code u ROOMS)) =
   map (\<lambda>(c, r). (c, questions r)) ROOMS"
  by (auto simp: room_join_def Let_def split: option.splits intro!: map_dict_set_same)

lemma room_submit_questions:
  "map (\<lambda>(c, r). (c, questions r)) (snd (room_submit code form ROOMS)) =
   map (\<lambda>(c, r). (c, questions r)) ROOMS"
  by (auto simp: room_submit_def Let_def split: option.splits intro!: map_dict_set_same)

text \<open>
  Claim C9. \<^verbatim>\<open>room_join\<close>, \<^verbatim>\<open>room_submit\<close>, \<^verbatim>\<open>room_results\<close> (leaderboard and
  player detail), \<^verbatim>\<open>room_quiz\<close> and \<^verbatim>\<open>room_join_page\<close> leave every room of the
  registry with the list of questions it had: the same codes in the same order, each with
  the same questions (texts, correct answers and options).
\<close>

theorem questions_never_mutated:
  "map (\<lambda>(c, r). (c, questions r)) (snd (room_join rnd code u ROOMS)) =
     map (\<lambda>(c, r). (c, questions r)) ROOMS \<and>
   map (\<lambda>(c, r). (c, questions r)) (snd (room_submit code form ROOMS)) =
     map (\<lambda>(c, r). (c, questions r)) ROOMS \<and>
   map (\<lambda>(c, r). (c, questions r)) (snd (room_results code uo ROOMS)) =
     map (\<lambda>(c, r). (c, questions r)) ROOMS \<and>
   map (\<lambda>(c, r). (c, questions r)) (snd (room_quiz code u ROOMS)) =
     map (\<lambda>(c, r). (c, questions r)) ROOMS \<and>
   map (\<lambda>(c, r). (c, questions r)) (snd (room_join_page code ROOMS)) =
     map (\<lambda>(c, r). (c, questions r)) ROOMS"
  by (simp add: room_join_questions room_submit_questions room_results_state room_quiz_state
      room_join_page_state)

theorem questions_never_mutated_witness:
  "map (\<lambda>(c, r). (c, questions r))
     (snd (room_join (\<lambda>i. 7) ''AAAAAA'' ''Alice'' example_rooms)) =
     [(''AAAAAA'', example_questions)] \<and>
   map (\<lambda>(c, r). (c, questions r)) (snd (room_submit ''AAAAAA'' example_form2 example_rooms)) =
     [(''AAAAAA'', example_questions)]"
  using questions_never_mutated [of "\<lambda>i. 7" "''AAAAAA''" "''Alice''" example_rooms
      example_form2 None]
  by (simp add: example_rooms_def example_room_def)

section \<open>The leaderboard\<close>

lemma sorted_reverse_desc: "sorted_wrt (\<lambda>a b. f b \<le> f a) (sorted_reverse f xs)"
proof -
  have "sorted (map f (sort_key f (rev xs)))" by simp
  then have "sorted_wrt (\<lambda>a b. f a \<le> f b) (sort_key f (rev xs))"
    by (simp add: sorted_wrt_map)
  then show ?thesis
    by (simp add: sorted_reverse_def sorted_wrt_rev)
qed

lemma sorted_reverse_stable:
  "filter (\<lambda>y. f y = k) (sorted_reverse f xs) = filter (\<lambda>y. f y = k) xs"
  by (simp add: sorted_reverse_def rev_filter [symmetric] sort_key_stable)

lemma sorted_reverse_length: "length (sorted_reverse f xs) = length xs"
  by (simp add: sorted_reverse_def)

lemma player_rows_usernames: "map username (player_rows room) = dict_keys (players room)"
  by (auto simp: player_rows_def dict_keys_def)

text \<open>
  Claim C3. The rows of the leaderboard are in descending order of score, and the rows of
  any one score are in the order the players have in the room's dictionary, which is the
  order in which their names were first stored: the sort is stable.
\<close>

theorem leaderboard_sorted_stable:
  assumes "dict_get ROOMS code = Some room"
  shows "\<exists>rows details.
      room_results code uo ROOMS =
        (RoomResultsPage code rows details uo (length (questions room)), ROOMS) \<and>
      sorted_wrt (\<lambda>a b. score b \<le> score a) rows \<and>
      (\<forall>k. filter (\<lambda>r. score r = k) rows = filter (\<lambda>r. score r = k) (player_rows room)) \<and>
      length rows = length (player_rows room) \<and>
      map username (player_rows room) = dict_keys (players room)"
  using assms
  by (simp add: room_results_def Let_def sorted_reverse_desc sorted_reverse_stable
      sorted_reverse_length player_rows_usernames)

lemma example_tie_rows:
  "player_rows example_tie_room =
     [\<lparr>username = ''A'', score = 0, row_submitted = False\<rparr>,
      \<lparr>username = ''B'', score = 0, row_submitted = True\<rparr>,
      \<lparr>username = ''D'', score = 1, row_submitted = True\<rparr>,
      \<lparr>username = ''C'', score = 0, row_submitted = True\<rparr>]"
  by (simp add: example_tie_room_def player_rows_def dict_values_def answer_of_def parse_val_def
      split_def)

theorem leaderboard_sorted_stable_witness:
  "dict_get [(''BBBBBB'', example_tie_room)] ''BBBBBB'' = Some example_tie_room \<and>
   (\<exists>rows details.
      room_results ''BBBBBB'' None [(''BBBBBB'', example_tie_room)] =
        (RoomResultsPage ''BBBBBB'' rows details None 2, [(''BBBBBB'', example_tie_room)]) \<and>
      sorted_wrt (\<lambda>a b. score b \<le> score a) rows \<and>
      map username (filter (\<lambda>r. score r = 0) rows) = [''A'', ''B'', ''C''] \<and>
      map username (filter (\<lambda>r. score r = 1) rows) = [''D''])"
proof -
  have h: "dict_get [(''BBBBBB'', example_tie_room)] ''BBBBBB'' = Some example_tie_room"
    by (simp add: dict_get_def)
  have n: "length (questions example_tie_room) = 2"
    by (simp add: example_tie_room_def example_questions_def)
  from leaderboard_sorted_stable [OF h, of None] obtain rows details where
    r: "room_results ''BBBBBB'' None [(''BBBBBB'', example_tie_room)] =
        (RoomResultsPage ''BBBBBB'' rows details None 2, [(''BBBBBB'', example_tie_room)])"
    and s: "sorted_wrt (\<lambda>a b. score b \<le> score a) rows"
    and f: "\<And>k. filter (\<lambda>r. score r = k) rows = filter (\<lambda>r. score r = k) (player_rows example_tie_room)"
    unfolding n by blast
  have a: "map username (filter (\<lambda>r. score r = 0) rows) = [''A'', ''B'', ''C'']"
    and b: "map username (filter (\<lambda>r. score r = 1) rows) = [''D'']"
    by (simp_all add: f example_tie_rows)
  have "\<exists>rows details.
      room_results ''BBBBBB'' None [(''BBBBBB'', example_tie_room)] =
        (RoomResultsPage ''BBBBBB'' rows details None 2, [(''BBBBBB'', example_tie_room)]) \<and>
      sorted_wrt (\<lambda>a b. score b \<le> score a) rows \<and>
      map username (filter (\<lambda>r. score r = 0) rows) = [''A'', ''B'', ''C''] \<and>
      map username (filter (\<lambda>r. score r = 1) rows) = [''D'']"
    using r s a b by (intro exI [of _ rows] exI [of _ details] conjI)
  with h show ?thesis by (rule conjI)
qed

section \<open>The details of a player\<close>

lemma player_details_length: "length (player_details room ud) = length (questions room)"
  by (simp add: player_details_def)

lemma player_details_nth:
  assumes "i < length (questions room)"
  shows "player_details room ud ! i =
    (case dict_get (answers ud) (''q'' @ str_nat i) of
       Some a \<Rightarrow> a
     | None \<Rightarrow>
         \<lparr>a_question = question (questions room ! i), correct = answer (questions room ! i),
          selected = [], is_correct = False\<rparr>)"
  using assms by (simp add: player_details_def split: option.splits)

text \<open>
  Claim C2, as the code has it. For a room that exists and a user name that is unset, empty
  or not a key of the room's players, \<^verbatim>\<open>room_results\<close> does not fail and its list
  of details is empty: the placeholders are built only under \<^verbatim>\<open>if user_details\<close>.
  For a joined player, whatever \<open>submitted\<close> is, the details hold one entry for each
  question: the stored answer under \<^verbatim>\<open>q0\<close>, \<^verbatim>\<open>q1\<close>, ... where there is one, and
  otherwise a placeholder with an empty selection, \<open>is_correct\<close> false and the question's
  answer. With no stored answers every entry is such a placeholder.
\<close>

theorem absent_player_no_details:
  "(dict_get ROOMS code = Some room \<and>
    (uo = None \<or> uo = Some [] \<or> (\<exists>u. uo = Some u \<and> \<not> dict_contains u (players room))) \<longrightarrow>
      (\<exists>rows. room_results code uo ROOMS =
         (RoomResultsPage code rows [] uo (length (questions room)), ROOMS))) \<and>
   (dict_get ROOMS code = Some room \<and> u \<noteq> [] \<and> dict_get (players room) u = Some info \<longrightarrow>
      (\<exists>rows details. room_results code (Some u) ROOMS =
         (RoomResultsPage code rows details (Some u) (length (questions room)), ROOMS) \<and>
         length details = length (questions room) \<and>
         (\<forall>i < length (questions room).
            (dict_get (answers info) (''q'' @ str_nat i) = None \<longrightarrow>
               details ! i =
                 \<lparr>a_question = question (questions room ! i),
                  correct = answer (questions room ! i), selected = [], is_correct = False\<rparr>) \<and>
            (\<forall>a. dict_get (answers info) (''q'' @ str_nat i) = Some a \<longrightarrow> details ! i = a)) \<and>
         (answers info = [] \<longrightarrow>
            details =
              map (\<lambda>q. \<lparr>a_question = question q, correct = answer q, selected = [],
                          is_correct = False\<rparr>) (questions room))))"
proof (intro conjI impI)
  assume "dict_get ROOMS code = Some room \<and>
    (uo = None \<or> uo = Some [] \<or> (\<exists>u. uo = Some u \<and> \<not> dict_contains u (players room)))"
  then show "\<exists>rows. room_results code uo ROOMS =
         (RoomResultsPage code rows [] uo (length (questions room)), ROOMS)"
    by (auto simp: room_results_def Let_def dict_contains_get)
next
  assume a: "dict_get ROOMS code = Some room \<and> u \<noteq> [] \<and> dict_get (players room) u = Some info"
  let ?details = "player_details room info"
  have r: "room_results code (Some u) ROOMS =
      (RoomResultsPage code (sorted_reverse score (player_rows room)) ?details (Some u)
         (length (questions room)), ROOMS)"
    using a by (simp add: room_results_def Let_def)
  have e: "?details = map (\<lambda>q. \<lparr>a_question = question q, correct = answer q, selected = [],
                          is_correct = False\<rparr>) (questions room)" if "answers info = []"
  proof (rule nth_equalityI)
    show "length ?details = length (map (\<lambda>q. \<lparr>a_question = question q, correct = answer q,
        selected = [], is_correct = False\<rparr>) (questions room))"
      by (simp add: player_details_length)
  next
    fix i assume "i < length ?details"
    then have "i < length (questions room)"
      by (simp add: player_details_length)
    then show "?details ! i = map (\<lambda>q. \<lparr>a_question = question q, correct = answer q,
        selected = [], is_correct = False\<rparr>) (questions room) ! i"
      using that by (simp add: player_details_nth dict_get_def)
  qed
  have "length ?details = length (questions room) \<and>
         (\<forall>i < length (questions room).
            (dict_get (answers info) (''q'' @ str_nat i) = None \<longrightarrow>
               ?details ! i =
                 \<lparr>a_question = question (questions room ! i),
                  correct = answer (questions room ! i), selected = [], is_correct = False\<rparr>) \<and>
            (\<forall>a. dict_get (answers info) (''q'' @ str_nat i) = Some a \<longrightarrow> ?details ! i = a)) \<and>
         (answers info = [] \<longrightarrow>
            ?details =
              map (\<lambda>q. \<lparr>a_question = question q, correct = answer q, selected = [],
                          is_correct = False\<rparr>) (questions room))"
    using e by (simp add: player_details_length player_details_nth)
  with r show "\<exists>rows details. room_results code (Some u) ROOMS =
         (RoomResultsPage code rows details (Some u) (length (questions room)), ROOMS) \<and>
         length details = length (questions room) \<and>
         (\<forall>i < length (questions room).
            (dict_get (answers info) (''q'' @ str_nat i) = None \<longrightarrow>
               details ! i =
                 \<lparr>a_question = question (questions room ! i),
                  correct = answer (questions room ! i), selected = [], is_correct = False\<rparr>) \<and>
            (\<forall>a. dict_get (answers info) (''q'' @ str_nat i) = Some a \<longrightarrow> details ! i = a)) \<and>
         (answers info = [] \<longrightarrow>
            details =
              map (\<lambda>q. \<lparr>a_question = question q, correct = answer q, selected = [],
                          is_correct = False\<rparr>) (questions room))"
    by blast
qed

theorem absent_player_no_details_witness:
  "dict_get example_rooms ''AAAAAA'' = Some example_room \<and>
   \<not> dict_contains ''Carol'' (players example_room) \<and>
   (\<exists>rows. room_results ''AAAAAA'' (Some ''Carol'') example_rooms =
      (RoomResultsPage ''AAAAAA'' rows [] (Some ''Carol'') (length (questions example_room)),
       example_rooms)) \<and>
   dict_get [(''BBBBBB'', example_tie_room)] ''BBBBBB'' = Some example_tie_room \<and>
   dict_get (players example_tie_room) ''B'' = Some \<lparr>answers = [], submitted = True\<rparr> \<and>
   (\<exists>rows details. room_results ''BBBBBB'' (Some ''B'') [(''BBBBBB'', example_tie_room)] =
      (RoomResultsPage ''BBBBBB'' rows details (Some ''B'') (length (questions example_tie_room)),
       [(''BBBBBB'', example_tie_room)]) \<and>
      details =
        [\<lparr>a_question = ''2 + 2?'', correct = ''4'', selected = [], is_correct = False\<rparr>,
         \<lparr>a_question = ''Capital of France?'', correct = ''Paris'', selected = [],
          is_correct = False\<rparr>]) \<and>
   dict_get (players example_tie_room) ''C'' =
     Some \<lparr>answers = [(''q0'', answer_of ''2 + 2?||4||5'')], submitted = True\<rparr> \<and>
   (\<exists>rows details. room_results ''BBBBBB'' (Some ''C'') [(''BBBBBB'', example_tie_room)] =
      (RoomResultsPage ''BBBBBB'' rows details (Some ''C'') (length (questions example_tie_room)),
       [(''BBBBBB'', example_tie_room)]) \<and>
      details ! 0 =
        \<lparr>a_question = ''2 + 2?'', correct = ''4'', selected = ''5'', is_correct = False\<rparr> \<and>
      details ! 1 =
        \<lparr>a_question = ''Capital of France?'', correct = ''Paris'', selected = [],
         is_correct = False\<rparr>)"
proof -
  let ?R = "[(''BBBBBB'', example_tie_room)]"
  have c: "\<exists>rows. room_results ''AAAAAA'' (Some ''Carol'') example_rooms =
      (RoomResultsPage ''AAAAAA'' rows [] (Some ''Carol'') (length (questions example_room)),
       example_rooms)"
    using absent_player_no_details [of example_rooms "''AAAAAA''" example_room "Some ''Carol''"]
      example_rooms_get example_room_carol by blast
  have g: "dict_get ?R ''BBBBBB'' = Some example_tie_room"
    by (simp add: dict_get_def)
  have b: "dict_get (players example_tie_room) ''B'' = Some \<lparr>answers = [], submitted = True\<rparr>"
    by code_simp
  have pc: "dict_get (players example_tie_room) ''C'' =
     Some \<lparr>answers = [(''q0'', answer_of ''2 + 2?||4||5'')], submitted = True\<rparr>"
    by code_simp
  have q: "map (\<lambda>q. \<lparr>a_question = question q, correct = answer q, selected = [],
                          is_correct = False\<rparr>) (questions example_tie_room) =
        [\<lparr>a_question = ''2 + 2?'', correct = ''4'', selected = [], is_correct = False\<rparr>,
         \<lparr>a_question = ''Capital of France?'', correct = ''Paris'', selected = [],
          is_correct = False\<rparr>]"
    by code_simp
  have rb: "\<exists>rows details. room_results ''BBBBBB'' (Some ''B'') ?R =
      (RoomResultsPage ''BBBBBB'' rows details (Some ''B'') (length (questions example_tie_room)),
       ?R) \<and>
      details =
        [\<lparr>a_question = ''2 + 2?'', correct = ''4'', selected = [], is_correct = False\<rparr>,
         \<lparr>a_question = ''Capital of France?'', correct = ''Paris'', selected = [],
          is_correct = False\<rparr>]"
    using absent_player_no_details
      [THEN conjunct2, of ?R "''BBBBBB''" example_tie_room "''B''"
        "\<lparr>answers = [], submitted = True\<rparr>"] g b
    unfolding q [symmetric] by auto
  have n: "length (questions example_tie_room) = 2"
    "question (questions example_tie_room ! 1) = ''Capital of France?''"
    "answer (questions example_tie_room ! 1) = ''Paris''"
    by code_simp+
  have k: "dict_get (answers \<lparr>answers = [(''q0'', answer_of ''2 + 2?||4||5'')], submitted = True\<rparr>)
           (''q'' @ str_nat 0) =
         Some \<lparr>a_question = ''2 + 2?'', correct = ''4'', selected = ''5'', is_correct = False\<rparr>"
    "dict_get (answers \<lparr>answers = [(''q0'', answer_of ''2 + 2?||4||5'')], submitted = True\<rparr>)
           (''q'' @ str_nat 1) = None"
    by code_simp+
  from absent_player_no_details
      [THEN conjunct2, of ?R "''BBBBBB''" example_tie_room "''C''"
        "\<lparr>answers = [(''q0'', answer_of ''2 + 2?||4||5'')], submitted = True\<rparr>"] g pc
  obtain rows details where
    r: "room_results ''BBBBBB'' (Some ''C'') ?R =
      (RoomResultsPage ''BBBBBB'' rows details (Some ''C'') (length (questions example_tie_room)),
       ?R)"
    and d: "\<forall>i < length (questions example_tie_room).
            (dict_get (answers \<lparr>answers = [(''q0'', answer_of ''2 + 2?||4||5'')], submitted = True\<rparr>)
               (''q'' @ str_nat i) = None \<longrightarrow>
               details ! i =
                 \<lparr>a_question = question (questions example_tie_room ! i),
                  correct = answer (questions example_tie_room ! i), selected = [],
                  is_correct = False\<rparr>) \<and>
            (\<forall>a. dict_get (answers \<lparr>answers = [(''q0'', answer_of ''2 + 2?||4||5'')], submitted = True\<rparr>)
               (''q'' @ str_nat i) = Some a \<longrightarrow> details ! i = a)"
    by auto
  from d [rule_format, of 0] k(1) n(1)
  have d0: "details ! 0 =
        \<lparr>a_question = ''2 + 2?'', correct = ''4'', selected = ''5'', is_correct = False\<rparr>"
    by simp
  from d [rule_format, of 1] k(2) n
  have d1: "details ! 1 =
        \<lparr>a_question = ''Capital of France?'', correct = ''Paris'', selected = [],
         is_correct = False\<rparr>"
    by simp
  from r d0 d1
  have rc: "\<exists>rows details. room_results ''BBBBBB'' (Some ''C'') ?R =
      (RoomResultsPage ''BBBBBB'' rows details (Some ''C'') (length (questions example_tie_room)),
       ?R) \<and>
      details ! 0 =
        \<lparr>a_question = ''2 + 2?'', correct = ''4'', selected = ''5'', is_correct = False\<rparr> \<and>
      details ! 1 =
        \<lparr>a_question = ''Capital of France?'', correct = ''Paris'', selected = [],
         is_correct = False\<rparr>"
    by blast
  show ?thesis
    using example_rooms_get example_room_carol c g b rb pc rc by (intro conjI)
qed

text \<open>
  The claim as stated fails: for a name that has not joined, and for an unset name, the
  room of the sample data has two questions and the list of details is empty.
\<close>

theorem absent_player_no_details_counterexample:
  "dict_get example_rooms ''AAAAAA'' = Some example_room \<and>
   \<not> dict_contains ''Carol'' (players example_room) \<and>
   length (questions example_room) = 2 \<and>
   fst (room_results ''AAAAAA'' (Some ''Carol'') example_rooms) =
     RoomResultsPage ''AAAAAA''
       [\<lparr>username = ''Alice'', score = 0, row_submitted = False\<rparr>,
        \<lparr>username = ''Bob'', score = 0, row_submitted = False\<rparr>]
       [] (Some ''Carol'') 2 \<and>
   fst (room_results ''AAAAAA'' None example_rooms) =
     RoomResultsPage ''AAAAAA''
       [\<lparr>username = ''Alice'', score = 0, row_submitted = False\<rparr>,
        \<lparr>username = ''Bob'', score = 0, row_submitted = False\<rparr>]
       [] None 2"
proof -
  have rows: "sorted_reverse score (player_rows example_room) =
      [\<lparr>username = ''Alice'', score = 0, row_submitted = False\<rparr>,
       \<lparr>username = ''Bob'', score = 0, row_submitted = False\<rparr>]"
    by (simp add: sorted_reverse_def player_rows_def dict_values_def example_room_def)
  have carol: "dict_get (players example_room) ''Carol'' = None"
    using example_room_carol by (simp add: dict_contains_get)
  have n: "length (questions example_room) = 2"
    by (simp add: example_room_def example_questions_def)
  show ?thesis
    by (simp add: room_results_def example_rooms_get example_room_carol Let_def rows carol n)
qed

section \<open>Joining a room\<close>

lemma dict_contains_dict_set:
  "dict_contains k' (dict_set k v d) \<longleftrightarrow> k' = k \<or> dict_contains k' d"
  by (simp add: dict_contains_get dict_get_dict_set)

lemma suffix_digits:
  "length (map (\<lambda>i. secrets_choice digits (rnd i)) [0..<3]) = 3"
  "set (map (\<lambda>i. secrets_choice digits (rnd i)) [0..<3]) \<subseteq> set digits"
proof -
  have "secrets_choice digits r \<in> set digits" for r
    unfolding secrets_choice_def by (rule nth_mem) (simp add: digits_def)
  then show "set (map (\<lambda>i. secrets_choice digits (rnd i)) [0..<3]) \<subseteq> set digits"
    by auto
qed simp

lemma join_uname_cases:
  "join_uname rnd u0 ps =
     (if dict_contains (if strip u0 = [] then ''Player'' else strip u0) ps
      then (if strip u0 = [] then ''Player'' else strip u0) @ ''_'' @
             map (\<lambda>i. secrets_choice digits (rnd i)) [0..<3]
      else (if strip u0 = [] then ''Player'' else strip u0))"
  by (simp add: join_uname_def Let_def)

lemma room_join_ok:
  assumes "dict_get ROOMS code = Some room"
  shows "room_join rnd code u0 ROOMS =
    (RedirectResponse (''/room/'' @ code @ ''/quiz?username='' @ join_uname rnd u0 (players room)),
     dict_set code
       (room\<lparr>players := dict_set (join_uname rnd u0 (players room))
                  \<lparr>answers = [], submitted = False\<rparr> (players room)\<rparr>) ROOMS)"
  using assms by (simp add: room_join_def Let_def)

lemma strip_Alice: "strip ''Alice'' = ''Alice''"
  by (simp add: strip_def isspace_def)

lemma suffix_five: "map (\<lambda>i. secrets_choice digits ((\<lambda>i. 5) i)) [0..<3] = ''555''"
  by (simp add: secrets_choice_def digits_def upt_rec)

text \<open>
  The name \<^verbatim>\<open>room_join\<close> stores. The name asked for is trimmed, and is "Player" when
  nothing is left. When that name is a key of the room's players, the player is stored
  under the name followed by an underscore and three drawn decimal digits, which differs
  from the name; otherwise under the name itself, appended to the dictionary. The second of
  two successive joins with the same name is always stored under such a suffixed name. The
  two stored names are equal exactly when the name was present before the first join and
  both draws gave the same digits; when the name is free before the first join they differ.
\<close>

theorem join_taken_name_gets_suffix:
  assumes room: "dict_get ROOMS code = Some room"
    and uname: "uname = (if strip u0 = [] then ''Player'' else strip u0)"
    and sfx1: "sfx1 = map (\<lambda>i. secrets_choice digits (rnd1 i)) [0..<3]"
    and sfx2: "sfx2 = map (\<lambda>i. secrets_choice digits (rnd2 i)) [0..<3]"
    and R1: "R1 = snd (room_join rnd1 code u0 ROOMS)"
    and R2: "R2 = snd (room_join rnd2 code u0 R1)"
  shows "length sfx1 = 3 \<and> set sfx1 \<subseteq> set digits \<and> length sfx2 = 3 \<and> set sfx2 \<subseteq> set digits \<and>
    (\<exists>n1 room1 room2.
       fst (room_join rnd1 code u0 ROOMS) =
         RedirectResponse (''/room/'' @ code @ ''/quiz?username='' @ n1) \<and>
       dict_get R1 code = Some room1 \<and>
       dict_get (players room1) n1 = Some \<lparr>answers = [], submitted = False\<rparr> \<and>
       (if dict_contains uname (players room) then n1 = uname @ ''_'' @ sfx1 \<and> n1 \<noteq> uname
        else n1 = uname \<and> players room1 = players room @ [(uname, \<lparr>answers = [], submitted = False\<rparr>)]) \<and>
       fst (room_join rnd2 code u0 R1) =
         RedirectResponse (''/room/'' @ code @ ''/quiz?username='' @ uname @ ''_'' @ sfx2) \<and>
       dict_get R2 code = Some room2 \<and>
       dict_get (players room2) (uname @ ''_'' @ sfx2) = Some \<lparr>answers = [], submitted = False\<rparr> \<and>
       dict_contains n1 (players room2) \<and>
       (n1 = uname @ ''_'' @ sfx2 \<longleftrightarrow> dict_contains uname (players room) \<and> sfx1 = sfx2))"
proof -
  let ?new = "\<lparr>answers = [], submitted = False\<rparr>"
  let ?n1 = "join_uname rnd1 u0 (players room)"
  let ?room1 = "room\<lparr>players := dict_set ?n1 ?new (players room)\<rparr>"
  let ?n2 = "join_uname rnd2 u0 (players ?room1)"
  let ?room2 = "?room1\<lparr>players := dict_set ?n2 ?new (players ?room1)\<rparr>"
  have j1: "room_join rnd1 code u0 ROOMS =
      (RedirectResponse (''/room/'' @ code @ ''/quiz?username='' @ ?n1), dict_set code ?room1 ROOMS)"
    by (rule room_join_ok [OF room])
  have R1': "R1 = dict_set code ?room1 ROOMS"
    by (simp add: R1 j1)
  have g1: "dict_get R1 code = Some ?room1"
    by (simp add: R1' dict_get_dict_set)
  have j2: "room_join rnd2 code u0 R1 =
      (RedirectResponse (''/room/'' @ code @ ''/quiz?username='' @ ?n2), dict_set code ?room2 R1)"
    by (rule room_join_ok [OF g1])
  have g2: "dict_get R2 code = Some ?room2"
    by (simp add: R2 j2 dict_get_dict_set)
  have n1: "?n1 = (if dict_contains uname (players room) then uname @ ''_'' @ sfx1 else uname)"
    by (simp add: join_uname_cases uname sfx1)
  have present: "dict_contains uname (players ?room1)"
    by (simp add: dict_contains_dict_set n1)
  have n2: "?n2 = uname @ ''_'' @ sfx2"
    using present by (simp add: join_uname_cases uname [symmetric] sfx2 [symmetric])
  have p1: "dict_get (players ?room1) ?n1 = Some ?new"
    by (simp add: dict_get_dict_set)
  have n2': "join_uname rnd2 u0 (dict_set ?n1 ?new (players room)) = uname @ ''_'' @ sfx2"
    using n2 by simp
  have p2: "dict_get (players ?room2) (uname @ ''_'' @ sfx2) = Some ?new"
    by (simp add: dict_get_dict_set n2')
  have c1: "dict_contains ?n1 (players ?room2)"
    by (simp add: dict_contains_dict_set)
  have fresh: "\<not> dict_contains uname (players room) \<Longrightarrow>
      players ?room1 = players room @ [(uname, ?new)]"
    by (simp add: n1 dict_set_absent)
  have main: "fst (room_join rnd1 code u0 ROOMS) =
         RedirectResponse (''/room/'' @ code @ ''/quiz?username='' @ ?n1) \<and>
       dict_get R1 code = Some ?room1 \<and>
       dict_get (players ?room1) ?n1 = Some ?new \<and>
       (if dict_contains uname (players room) then ?n1 = uname @ ''_'' @ sfx1 \<and> ?n1 \<noteq> uname
        else ?n1 = uname \<and> players ?room1 = players room @ [(uname, ?new)]) \<and>
       fst (room_join rnd2 code u0 R1) =
         RedirectResponse (''/room/'' @ code @ ''/quiz?username='' @ uname @ ''_'' @ sfx2) \<and>
       dict_get R2 code = Some ?room2 \<and>
       dict_get (players ?room2) (uname @ ''_'' @ sfx2) = Some ?new \<and>
       dict_contains ?n1 (players ?room2) \<and>
       (?n1 = uname @ ''_'' @ sfx2 \<longleftrightarrow> dict_contains uname (players room) \<and> sfx1 = sfx2)"
    using g1 p1 g2 p2 c1 fresh by (simp add: j1 j2 n2') (simp add: n1)
  have "length sfx1 = 3" "set sfx1 \<subseteq> set digits" "length sfx2 = 3" "set sfx2 \<subseteq> set digits"
    unfolding sfx1 sfx2 by (rule suffix_digits)+
  with main show ?thesis by blast
qed

theorem join_taken_name_gets_suffix_witness:
  "dict_get example_rooms ''AAAAAA'' = Some example_room \<and>
   ''Carol'' = (if strip ''  Carol '' = [] then ''Player'' else strip ''  Carol '') \<and>
   ''555'' = map (\<lambda>i. secrets_choice digits ((\<lambda>i. 5) i)) [0..<3] \<and>
   (\<exists>n1. fst (room_join (\<lambda>i. 5) ''AAAAAA'' ''  Carol '' example_rooms) =
        RedirectResponse (''/room/'' @ ''AAAAAA'' @ ''/quiz?username='' @ n1) \<and>
      n1 = ''Carol'' \<and>
      fst (room_join (\<lambda>i. 5) ''AAAAAA'' ''  Carol ''
            (snd (room_join (\<lambda>i. 5) ''AAAAAA'' ''  Carol '' example_rooms))) =
        RedirectResponse (''/room/'' @ ''AAAAAA'' @ ''/quiz?username='' @ ''Carol'' @ ''_'' @ ''555'') \<and>
      n1 \<noteq> ''Carol'' @ ''_'' @ ''555'') \<and>
   ''Alice'' = (if strip ''Alice'' = [] then ''Player'' else strip ''Alice'') \<and>
   ''012'' = map (\<lambda>i. secrets_choice digits ((\<lambda>i. i + 10) i)) [0..<3] \<and>
   dict_contains ''Alice'' (players example_room) \<and>
   (\<exists>n1. fst (room_join (\<lambda>i. 5) ''AAAAAA'' ''Alice'' example_rooms) =
        RedirectResponse (''/room/'' @ ''AAAAAA'' @ ''/quiz?username='' @ n1) \<and>
      n1 = ''Alice'' @ ''_'' @ ''555'' \<and>
      fst (room_join (\<lambda>i. i + 10) ''AAAAAA'' ''Alice''
            (snd (room_join (\<lambda>i. 5) ''AAAAAA'' ''Alice'' example_rooms))) =
        RedirectResponse (''/room/'' @ ''AAAAAA'' @ ''/quiz?username='' @ ''Alice'' @ ''_'' @ ''012'') \<and>
      n1 \<noteq> ''Alice'' @ ''_'' @ ''012'')"
proof -
  have u: "''Carol'' = (if strip ''  Carol '' = [] then ''Player'' else strip ''  Carol '')"
    by (simp add: strip_def isspace_def)
  have s: "''555'' = map (\<lambda>i. secrets_choice digits ((\<lambda>i. 5) i)) [0..<3]"
    by (simp add: suffix_five)
  note t = join_taken_name_gets_suffix [OF example_rooms_get u s s refl refl]
  from t example_room_carol
  have c: "\<exists>n1. fst (room_join (\<lambda>i. 5) ''AAAAAA'' ''  Carol '' example_rooms) =
        RedirectResponse (''/room/'' @ ''AAAAAA'' @ ''/quiz?username='' @ n1) \<and>
      n1 = ''Carol'' \<and>
      fst (room_join (\<lambda>i. 5) ''AAAAAA'' ''  Carol ''
            (snd (room_join (\<lambda>i. 5) ''AAAAAA'' ''  Carol '' example_rooms))) =
        RedirectResponse (''/room/'' @ ''AAAAAA'' @ ''/quiz?username='' @ ''Carol'' @ ''_'' @ ''555'') \<and>
      n1 \<noteq> ''Carol'' @ ''_'' @ ''555''"
    by auto
  have u': "''Alice'' = (if strip ''Alice'' = [] then ''Player'' else strip ''Alice'')"
    by (simp add: strip_Alice)
  have s': "''012'' = map (\<lambda>i. secrets_choice digits ((\<lambda>i. i + 10) i)) [0..<3]"
    by code_simp
  note t' = join_taken_name_gets_suffix [OF example_rooms_get u' s s' refl refl]
  from t' example_room_alice
  have a: "\<exists>n1. fst (room_join (\<lambda>i. 5) ''AAAAAA'' ''Alice'' example_rooms) =
        RedirectResponse (''/room/'' @ ''AAAAAA'' @ ''/quiz?username='' @ n1) \<and>
      n1 = ''Alice'' @ ''_'' @ ''555'' \<and>
      fst (room_join (\<lambda>i. i + 10) ''AAAAAA'' ''Alice''
            (snd (room_join (\<lambda>i. 5) ''AAAAAA'' ''Alice'' example_rooms))) =
        RedirectResponse (''/room/'' @ ''AAAAAA'' @ ''/quiz?username='' @ ''Alice'' @ ''_'' @ ''012'') \<and>
      n1 \<noteq> ''Alice'' @ ''_'' @ ''012''"
    by auto
  show ?thesis
    using example_rooms_get u s c u' s' example_room_alice a by (intro conjI)
qed

text \<open>
  Claim C6. Two successive joins with the same name are to register two distinct players,
  and the comment at line 145 of \<^verbatim>\<open>room_join\<close> reads "ensure username unique in room".
  The code checks the name once and never the suffixed name. The sample registry is reached
  by creating the room and joining as Alice and as Bob. From there two joins as Alice that
  both draw 555 are both stored as \<^verbatim>\<open>Alice_555\<close>: the room has three players, not
  four. When the first of them has submitted in between, the second join replaces that
  player: the stored answers are gone and \<open>submitted\<close> is false again.
\<close>

theorem room_join_suffix_collision:
  "snd (room_join (\<lambda>i. 0) ''AAAAAA'' ''Bob''
     (snd (room_join (\<lambda>i. 0) ''AAAAAA'' ''Alice''
        (snd (create_room (\<lambda>i. 0) (\<lambda>d. example_questions) ''general'' []))))) = example_rooms \<and>
   fst (room_join (\<lambda>i. 5) ''AAAAAA'' ''Alice'' example_rooms) =
     RedirectResponse ''/room/AAAAAA/quiz?username=Alice_555'' \<and>
   fst (room_join (\<lambda>i. 5) ''AAAAAA'' ''Alice''
          (snd (room_join (\<lambda>i. 5) ''AAAAAA'' ''Alice'' example_rooms))) =
     RedirectResponse ''/room/AAAAAA/quiz?username=Alice_555'' \<and>
   map (\<lambda>(c, r). (c, dict_keys (players r)))
     (snd (room_join (\<lambda>i. 5) ''AAAAAA'' ''Alice''
        (snd (room_join (\<lambda>i. 5) ''AAAAAA'' ''Alice'' example_rooms)))) =
     [(''AAAAAA'', [''Alice'', ''Bob'', ''Alice_555''])] \<and>
   map (\<lambda>(c, r). (c, players r))
     (snd (room_submit ''AAAAAA'' [(''username'', ''Alice_555''), (''q0'', ''2 + 2?||4||4'')]
        (snd (room_join (\<lambda>i. 5) ''AAAAAA'' ''Alice'' example_rooms)))) =
     [(''AAAAAA'',
       [(''Alice'', \<lparr>answers = [], submitted = False\<rparr>),
        (''Bob'', \<lparr>answers = [], submitted = False\<rparr>),
        (''Alice_555'',
         \<lparr>answers = [(''q0'', \<lparr>a_question = ''2 + 2?'', correct = ''4'', selected = ''4'',
                                  is_correct = True\<rparr>)],
          submitted = True\<rparr>)])] \<and>
   map (\<lambda>(c, r). (c, players r))
     (snd (room_join (\<lambda>i. 5) ''AAAAAA'' ''Alice''
        (snd (room_submit ''AAAAAA'' [(''username'', ''Alice_555''), (''q0'', ''2 + 2?||4||4'')]
           (snd (room_join (\<lambda>i. 5) ''AAAAAA'' ''Alice'' example_rooms)))))) =
     [(''AAAAAA'',
       [(''Alice'', \<lparr>answers = [], submitted = False\<rparr>),
        (''Bob'', \<lparr>answers = [], submitted = False\<rparr>),
        (''Alice_555'', \<lparr>answers = [], submitted = False\<rparr>)])]"
  by code_simp

section \<open>Scoring the entries of a form\<close>

lemma answer_of_is_correct: "is_correct (answer_of val) = (selected (answer_of val) = correct (answer_of val))"
  by (simp add: answer_of_def split: prod.splits)

lemma split_bars_last: "CHR ''|'' \<notin> set s \<Longrightarrow> split_bars cur s = [cur @ s]"
proof (induction s arbitrary: cur)
  case Nil
  then show ?case by simp
next
  case (Cons a s)
  then show ?case by (cases s) auto
qed

lemma split_bars_piece:
  "CHR ''|'' \<notin> set q \<Longrightarrow> split_bars cur (q @ CHR ''|'' # CHR ''|'' # rest) = (cur @ q) # split_bars [] rest"
proof (induction q arbitrary: cur)
  case Nil
  then show ?case by simp
next
  case (Cons a q)
  then show ?case by (cases q) auto
qed

lemma parse_val_three:
  assumes "CHR ''|'' \<notin> set q" "CHR ''|'' \<notin> set c" "CHR ''|'' \<notin> set s"
  shows "parse_val (q @ ''||'' @ c @ ''||'' @ s) = (q, c, s)"
  using assms by (simp add: parse_val_def split_def split_bars_piece split_bars_last)

lemma answer_of_split:
  "answer_of val =
     (case split val of
        [q, c, s] \<Rightarrow> \<lparr>a_question = q, correct = c, selected = s, is_correct = (s = c)\<rparr>
      | _ \<Rightarrow> \<lparr>a_question = val, correct = [], selected = [], is_correct = True\<rparr>)"
  by (simp add: answer_of_def parse_val_def split: list.splits)

lemma is_correct_answer_of:
  "is_correct (answer_of val) = (case split val of [q, c, s] \<Rightarrow> s = c | _ \<Rightarrow> True)"
  by (simp add: answer_of_split split: list.splits)

lemma count_correct_answers:
  "length (filter is_correct (map (\<lambda>k. answer_of (f k)) ks)) =
   length (filter (\<lambda>k. case split (f k) of [q, c, s] \<Rightarrow> s = c | _ \<Rightarrow> True) ks)"
  by (induction ks) (simp_all add: is_correct_answer_of)

lemma split_three:
  "CHR ''|'' \<notin> set q \<Longrightarrow> CHR ''|'' \<notin> set c \<Longrightarrow> CHR ''|'' \<notin> set s \<Longrightarrow>
   split (q @ ''||'' @ c @ ''||'' @ s) = [q, c, s]"
  by (simp add: split_def split_bars_piece split_bars_last)

lemma split_one: "CHR ''|'' \<notin> set v \<Longrightarrow> split v = [v]"
  by (simp add: split_def split_bars_last)

lemma single_answers_eq:
  "single_answers form keys acc =
     acc @ map (\<lambda>k. answer_of (the (form_get form k)))
             (filter (\<lambda>k. form_get form k \<notin> {None, Some []}) keys)"
  by (induction keys arbitrary: acc) (auto split: option.splits)

lemma dict_keys_distinct_set: "distinct (dict_keys d) \<Longrightarrow> distinct (dict_keys (dict_set k v d))"
  by (simp add: dict_keys_dict_set dict_contains_def)

lemma foldl_dict_set_distinct:
  "distinct (dict_keys d) \<Longrightarrow> distinct (dict_keys (foldl (\<lambda>d (k, v). dict_set k v d) d items))"
  by (induction items arbitrary: d) (auto simp: dict_keys_distinct_set)

lemma form_keys_distinct: "distinct (form_keys form)"
  unfolding form_keys_def form_dict_def
  by (rule foldl_dict_set_distinct) (simp add: dict_keys_def)

lemma submit_answers_eq:
  "distinct keys \<Longrightarrow> set keys \<inter> set (dict_keys acc) = {} \<Longrightarrow>
   submit_answers form keys acc =
     acc @ map (\<lambda>k. (k, answer_of (the (form_get form k))))
             (filter (\<lambda>k. form_get form k \<notin> {None, Some []}) keys)"
proof (induction keys arbitrary: acc)
  case Nil
  then show ?case by simp
next
  case (Cons k keys)
  show ?case
  proof (cases "form_get form k \<in> {None, Some []}")
    case True
    with Cons show ?thesis by (auto split: option.splits)
  next
    case False
    then obtain v where v: "form_get form k = Some v" "v \<noteq> []" by auto
    from Cons.prems have fresh: "\<not> dict_contains k acc"
      by (auto simp: dict_contains_def)
    have step: "dict_set k (answer_of v) acc = acc @ [(k, answer_of v)]"
      by (rule dict_set_absent [OF fresh])
    have "set keys \<inter> set (dict_keys (acc @ [(k, answer_of v)])) = {}"
      using Cons.prems by (auto simp: dict_keys_def)
    with Cons.IH [of "acc @ [(k, answer_of v)]"] Cons.prems v step show ?thesis
      by simp
  qed
qed

lemma submit_answers_values:
  "dict_values (submit_answers form (filter (\<lambda>k. startswith k ''q'') (form_keys form)) []) =
     map (\<lambda>k. answer_of (the (form_get form k)))
       (filter (\<lambda>k. form_get form k \<notin> {None, Some []})
          (filter (\<lambda>k. startswith k ''q'') (form_keys form)))"
  by (subst submit_answers_eq) (simp_all add: form_keys_distinct dict_keys_def dict_values_def comp_def)

lemma single_player_results_entries:
  "single_player_results m form = Inr (SinglePlayerResultsPage results sc tq) \<Longrightarrow>
   results = map (\<lambda>k. answer_of (the (form_get form k)))
     (filter (\<lambda>k. form_get form k \<notin> {None, Some []})
        (sort (filter (\<lambda>k. startswith k ''q'') (form_keys form)))) \<and>
   sc = length (filter is_correct results)"
  by (auto simp: single_player_results_def Let_def single_answers_eq split: option.splits)

lemma room_submit_stored:
  assumes "dict_get ROOMS code = Some room" and "form_get form ''username'' = Some u"
    and "dict_contains u (players room)"
  shows "\<exists>room'. snd (room_submit code form ROOMS) = dict_set code room' ROOMS \<and>
      dict_get (snd (room_submit code form ROOMS)) code = Some room' \<and>
      questions room' = questions room \<and>
      players room' = dict_set u
        \<lparr>answers = submit_answers form (filter (\<lambda>k. startswith k ''q'') (form_keys form)) [],
         submitted = True\<rparr> (players room) \<and>
      dict_get (players room') u =
        Some \<lparr>answers = submit_answers form (filter (\<lambda>k. startswith k ''q'') (form_keys form)) [],
              submitted = True\<rparr>"
proof -
  from assms(3) obtain info where info: "dict_get (players room) u = Some info"
    by (auto simp: dict_contains_get)
  show ?thesis
    unfolding room_submit_joined [OF assms(1) info assms(2)]
    by (simp add: dict_get_dict_set)
qed

text \<open>
  Claim C4, as the code has it. In every entry that \<^verbatim>\<open>single_player_results\<close> returns
  and in every entry that \<^verbatim>\<open>room_submit\<close> stores for the player, \<open>is_correct\<close> is
  true exactly when the selected option equals the correct answer as a string, with no
  change of case; so an empty selection is marked incorrect whenever the correct answer is
  not empty. A value \<^verbatim>\<open>question||correct||selected\<close> whose parts hold no bar gives the
  entry with those parts.
\<close>

theorem is_correct_iff_selected_equals_correct:
  "(single_player_results m form = Inr (SinglePlayerResultsPage results sc tq) \<longrightarrow>
      (\<forall>a \<in> set results. is_correct a = (selected a = correct a) \<and>
         (selected a = [] \<and> correct a \<noteq> [] \<longrightarrow> \<not> is_correct a))) \<and>
   (dict_get ROOMS code = Some room \<and> form_get form ''username'' = Some u \<and>
    dict_contains u (players room) \<longrightarrow>
      (\<exists>room' info. dict_get (snd (room_submit code form ROOMS)) code = Some room' \<and>
         dict_get (players room') u = Some info \<and>
         (\<forall>a \<in> set (dict_values (answers info)). is_correct a = (selected a = correct a) \<and>
            (selected a = [] \<and> correct a \<noteq> [] \<longrightarrow> \<not> is_correct a)))) \<and>
   (CHR ''|'' \<notin> set q \<and> CHR ''|'' \<notin> set c \<and> CHR ''|'' \<notin> set s \<longrightarrow>
      answer_of (q @ ''||'' @ c @ ''||'' @ s) =
        \<lparr>a_question = q, correct = c, selected = s, is_correct = (s = c)\<rparr>)"
proof (intro conjI impI)
  assume "single_player_results m form = Inr (SinglePlayerResultsPage results sc tq)"
  from single_player_results_entries [OF this]
  have "\<forall>a \<in> set results. is_correct a = (selected a = correct a)"
    by (auto simp: answer_of_is_correct)
  then show "\<forall>a \<in> set results. is_correct a = (selected a = correct a) \<and>
         (selected a = [] \<and> correct a \<noteq> [] \<longrightarrow> \<not> is_correct a)"
    by auto
next
  assume a: "dict_get ROOMS code = Some room \<and> form_get form ''username'' = Some u \<and>
    dict_contains u (players room)"
  let ?ans = "submit_answers form (filter (\<lambda>k. startswith k ''q'') (form_keys form)) []"
  from a room_submit_stored [of ROOMS code room form u] obtain room' where
    r: "dict_get (snd (room_submit code form ROOMS)) code = Some room'"
      "dict_get (players room') u = Some \<lparr>answers = ?ans, submitted = True\<rparr>"
    by blast
  have "\<forall>a \<in> set (dict_values ?ans). is_correct a = (selected a = correct a)"
    by (auto simp: submit_answers_values answer_of_is_correct)
  then have "\<forall>a \<in> set (dict_values (answers \<lparr>answers = ?ans, submitted = True\<rparr>)).
      is_correct a = (selected a = correct a) \<and>
      (selected a = [] \<and> correct a \<noteq> [] \<longrightarrow> \<not> is_correct a)"
    by auto
  with r show "\<exists>room' info. dict_get (snd (room_submit code form ROOMS)) code = Some room' \<and>
         dict_get (players room') u = Some info \<and>
         (\<forall>a \<in> set (dict_values (answers info)). is_correct a = (selected a = correct a) \<and>
            (selected a = [] \<and> correct a \<noteq> [] \<longrightarrow> \<not> is_correct a))"
    by blast
next
  assume "CHR ''|'' \<notin> set q \<and> CHR ''|'' \<notin> set c \<and> CHR ''|'' \<notin> set s"
  then show "answer_of (q @ ''||'' @ c @ ''||'' @ s) =
        \<lparr>a_question = q, correct = c, selected = s, is_correct = (s = c)\<rparr>"
    using parse_val_three [of q c s] by (simp add: answer_of_def)
qed

theorem is_correct_iff_selected_equals_correct_witness:
  "single_player_results 4300 [(''total_questions'', ''2''), (''q0'', ''2 + 2?||4||4''),
       (''q1'', ''Capital of France?||Paris||paris'')] =
     Inr (SinglePlayerResultsPage
       [\<lparr>a_question = ''2 + 2?'', correct = ''4'', selected = ''4'', is_correct = True\<rparr>,
        \<lparr>a_question = ''Capital of France?'', correct = ''Paris'', selected = ''paris'',
         is_correct = False\<rparr>] 1 2) \<and>
   list_all (\<lambda>a. is_correct a = (selected a = correct a))
       [\<lparr>a_question = ''2 + 2?'', correct = ''4'', selected = ''4'', is_correct = True\<rparr>,
        \<lparr>a_question = ''Capital of France?'', correct = ''Paris'', selected = ''paris'',
         is_correct = False\<rparr>] \<and>
   dict_get example_rooms ''AAAAAA'' = Some example_room \<and>
   form_get example_form2 ''username'' = Some ''Alice'' \<and>
   dict_contains ''Alice'' (players example_room) \<and>
   (\<exists>room' info.
      dict_get (snd (room_submit ''AAAAAA'' example_form2 example_rooms)) ''AAAAAA'' = Some room' \<and>
      dict_get (players room') ''Alice'' = Some info \<and>
      list_all (\<lambda>a. is_correct a = (selected a = correct a)) (dict_values (answers info))) \<and>
   CHR ''|'' \<notin> set ''2 + 2?'' \<and> CHR ''|'' \<notin> set ''4'' \<and> CHR ''|'' \<notin> set ''5'' \<and>
   answer_of (''2 + 2?'' @ ''||'' @ ''4'' @ ''||'' @ ''5'') =
     \<lparr>a_question = ''2 + 2?'', correct = ''4'', selected = ''5'', is_correct = False\<rparr>"
proof -
  have e: "single_player_results 4300 [(''total_questions'', ''2''), (''q0'', ''2 + 2?||4||4''),
       (''q1'', ''Capital of France?||Paris||paris'')] =
     Inr (SinglePlayerResultsPage
       [\<lparr>a_question = ''2 + 2?'', correct = ''4'', selected = ''4'', is_correct = True\<rparr>,
        \<lparr>a_question = ''Capital of France?'', correct = ''Paris'', selected = ''paris'',
         is_correct = False\<rparr>] 1 2)"
    by code_simp
  from is_correct_iff_selected_equals_correct [THEN conjunct1, rule_format, OF e]
  have a: "list_all (\<lambda>a. is_correct a = (selected a = correct a))
       [\<lparr>a_question = ''2 + 2?'', correct = ''4'', selected = ''4'', is_correct = True\<rparr>,
        \<lparr>a_question = ''Capital of France?'', correct = ''Paris'', selected = ''paris'',
         is_correct = False\<rparr>]"
    by (simp add: list_all_iff)
  have b: "\<exists>room' info.
      dict_get (snd (room_submit ''AAAAAA'' example_form2 example_rooms)) ''AAAAAA'' = Some room' \<and>
      dict_get (players room') ''Alice'' = Some info \<and>
      list_all (\<lambda>a. is_correct a = (selected a = correct a)) (dict_values (answers info))"
    using is_correct_iff_selected_equals_correct
      [THEN conjunct2, THEN conjunct1, of example_rooms "''AAAAAA''" example_room example_form2
        "''Alice''"]
      example_rooms_get form_get_example2 example_room_alice
    unfolding list_all_iff by blast
  have n: "CHR ''|'' \<notin> set ''2 + 2?'' \<and> CHR ''|'' \<notin> set ''4'' \<and> CHR ''|'' \<notin> set ''5''"
    by simp
  have c: "answer_of (''2 + 2?'' @ ''||'' @ ''4'' @ ''||'' @ ''5'') =
     \<lparr>a_question = ''2 + 2?'', correct = ''4'', selected = ''5'', is_correct = False\<rparr>"
    using is_correct_iff_selected_equals_correct
      [THEN conjunct2, THEN conjunct2, rule_format, OF n]
    by simp
  show ?thesis
    using e a b c example_rooms_get form_get_example2 example_room_alice n by blast
qed

text \<open>
  The claim as stated fails: an empty selection is marked correct when the correct answer
  of the entry is empty too, as it is for a value with no separator and for a value that
  ends in two separators.
\<close>

theorem empty_selection_marked_correct_counterexample:
  "single_player_results 4300 [(''total_questions'', ''1''), (''q0'', ''2 + 2?'')] =
     Inr (SinglePlayerResultsPage
       [\<lparr>a_question = ''2 + 2?'', correct = [], selected = [], is_correct = True\<rparr>] 1 1) \<and>
   answer_of ''2 + 2?||||'' =
     \<lparr>a_question = ''2 + 2?'', correct = [], selected = [], is_correct = True\<rparr> \<and>
   snd (room_submit ''AAAAAA'' [(''username'', ''Alice''), (''q0'', ''2 + 2?'')] example_rooms) =
     [(''AAAAAA'', example_room\<lparr>players :=
        [(''Alice'', \<lparr>answers = [(''q0'',
             \<lparr>a_question = ''2 + 2?'', correct = [], selected = [], is_correct = True\<rparr>)],
           submitted = True\<rparr>),
         (''Bob'', \<lparr>answers = [], submitted = False\<rparr>)]\<rparr>)]"
  by code_simp

section \<open>The single-player result\<close>

lemma single_player_results_eq:
  assumes "(case form_get form ''total_questions'' of None \<Rightarrow> Some 0
            | Some s \<Rightarrow> if s = [] then Some 0 else py_int m s) = Some n"
  shows "single_player_results m form =
    Inr (SinglePlayerResultsPage
      (map (\<lambda>k. case split (the (form_get form k)) of
                  [q, c, s] \<Rightarrow> \<lparr>a_question = q, correct = c, selected = s, is_correct = (s = c)\<rparr>
                | _ \<Rightarrow> \<lparr>a_question = the (form_get form k), correct = [], selected = [],
                        is_correct = True\<rparr>)
         (filter (\<lambda>k. form_get form k \<notin> {None, Some []})
            (sort (filter (\<lambda>k. startswith k ''q'') (form_keys form)))))
      (length (filter (\<lambda>k. case split (the (form_get form k)) of
                              [q, c, s] \<Rightarrow> s = c | _ \<Rightarrow> True)
         (filter (\<lambda>k. form_get form k \<notin> {None, Some []})
            (sort (filter (\<lambda>k. startswith k ''q'') (form_keys form))))))
      n)"
proof -
  let ?KS = "filter (\<lambda>k. form_get form k \<notin> {None, Some []})
            (sort (filter (\<lambda>k. startswith k ''q'') (form_keys form)))"
  have a: "single_player_results m form =
      Inr (SinglePlayerResultsPage (map (\<lambda>k. answer_of (the (form_get form k))) ?KS)
        (length (filter is_correct (map (\<lambda>k. answer_of (the (form_get form k))) ?KS))) n)"
    using assms by (simp add: single_player_results_def Let_def single_answers_eq)
  show ?thesis
    apply (simp only: a count_correct_answers)
    apply (simp only: answer_of_split)
    done
qed

text \<open>
  Claim C7, as the code has it. When the field \<^verbatim>\<open>total_questions\<close> holds an integer,
  the total of \<^verbatim>\<open>single_player_results\<close> is that integer, whatever the other fields
  are (and 0 when the field is missing or empty; a value that \<^verbatim>\<open>int\<close> rejects raises).
  The results hold one entry for each key that starts with "q" and has a non-empty value,
  in the order of the sorted keys. A value that splits at "||" into exactly three pieces
  gives the entry of those pieces and counts when the third equals the second. Any other
  value gives an entry with an empty correct answer and an empty selection, and counts.
  The score is the number of values that count. Keys that are missing or empty add nothing:
  with no such value the score is 0.
\<close>

theorem single_player_score_and_total:
  "((form_get form ''total_questions'' = Some s \<and> s \<noteq> [] \<and> py_int m s = Some n) \<or>
    ((form_get form ''total_questions'' = None \<or> form_get form ''total_questions'' = Some []) \<and>
     n = 0) \<longrightarrow>
      single_player_results m form =
        Inr (SinglePlayerResultsPage
          (map (\<lambda>k. case split (the (form_get form k)) of
                      [q, c, s] \<Rightarrow>
                        \<lparr>a_question = q, correct = c, selected = s, is_correct = (s = c)\<rparr>
                    | _ \<Rightarrow> \<lparr>a_question = the (form_get form k), correct = [], selected = [],
                            is_correct = True\<rparr>)
             (filter (\<lambda>k. form_get form k \<notin> {None, Some []})
                (sort (filter (\<lambda>k. startswith k ''q'') (form_keys form)))))
          (length (filter (\<lambda>k. case split (the (form_get form k)) of
                                  [q, c, s] \<Rightarrow> s = c | _ \<Rightarrow> True)
             (filter (\<lambda>k. form_get form k \<notin> {None, Some []})
                (sort (filter (\<lambda>k. startswith k ''q'') (form_keys form))))))
          n)) \<and>
   (form_get form ''total_questions'' = Some s \<and> s \<noteq> [] \<and> py_int m s = None \<longrightarrow>
      single_player_results m form = Inl ValueError) \<and>
   (form_get form ''total_questions'' = Some s \<and> s \<noteq> [] \<and> py_int m s = Some n \<and>
    (\<forall>k \<in> set (form_keys form). startswith k ''q'' \<longrightarrow> form_get form k = Some []) \<longrightarrow>
      single_player_results m form = Inr (SinglePlayerResultsPage [] 0 n)) \<and>
   (CHR ''|'' \<notin> set q \<and> CHR ''|'' \<notin> set c \<and> CHR ''|'' \<notin> set sel \<longrightarrow>
      split (q @ ''||'' @ c @ ''||'' @ sel) = [q, c, sel]) \<and>
   (CHR ''|'' \<notin> set v \<longrightarrow> split v = [v])"
proof (intro conjI impI)
  assume "(form_get form ''total_questions'' = Some s \<and> s \<noteq> [] \<and> py_int m s = Some n) \<or>
    ((form_get form ''total_questions'' = None \<or> form_get form ''total_questions'' = Some []) \<and>
     n = 0)"
  then have "(case form_get form ''total_questions'' of None \<Rightarrow> Some 0
            | Some s \<Rightarrow> if s = [] then Some 0 else py_int m s) = Some n"
    by auto
  then show "single_player_results m form =
        Inr (SinglePlayerResultsPage
          (map (\<lambda>k. case split (the (form_get form k)) of
                      [q, c, s] \<Rightarrow>
                        \<lparr>a_question = q, correct = c, selected = s, is_correct = (s = c)\<rparr>
                    | _ \<Rightarrow> \<lparr>a_question = the (form_get form k), correct = [], selected = [],
                            is_correct = True\<rparr>)
             (filter (\<lambda>k. form_get form k \<notin> {None, Some []})
                (sort (filter (\<lambda>k. startswith k ''q'') (form_keys form)))))
          (length (filter (\<lambda>k. case split (the (form_get form k)) of
                                  [q, c, s] \<Rightarrow> s = c | _ \<Rightarrow> True)
             (filter (\<lambda>k. form_get form k \<notin> {None, Some []})
                (sort (filter (\<lambda>k. startswith k ''q'') (form_keys form))))))
          n)"
    by (rule single_player_results_eq)
next
  assume "form_get form ''total_questions'' = Some s \<and> s \<noteq> [] \<and> py_int m s = None"
  then show "single_player_results m form = Inl ValueError"
    by (simp add: single_player_results_def)
next
  assume a: "form_get form ''total_questions'' = Some s \<and> s \<noteq> [] \<and> py_int m s = Some n \<and>
    (\<forall>k \<in> set (form_keys form). startswith k ''q'' \<longrightarrow> form_get form k = Some [])"
  then have "filter (\<lambda>k. form_get form k \<notin> {None, Some []})
      (sort (filter (\<lambda>k. startswith k ''q'') (form_keys form))) = []"
    by (auto simp: filter_empty_conv)
  with a show "single_player_results m form = Inr (SinglePlayerResultsPage [] 0 n)"
    by (simp add: single_player_results_def Let_def single_answers_eq)
next
  assume "CHR ''|'' \<notin> set q \<and> CHR ''|'' \<notin> set c \<and> CHR ''|'' \<notin> set sel"
  then show "split (q @ ''||'' @ c @ ''||'' @ sel) = [q, c, sel]"
    by (intro split_three) simp_all
next
  assume "CHR ''|'' \<notin> set v"
  then show "split v = [v]"
    by (rule split_one)
qed

theorem single_player_score_and_total_witness:
  "form_get example_single_form ''total_questions'' = Some ''4'' \<and>
   py_int 4300 ''4'' = Some 4 \<and>
   single_player_results 4300 example_single_form =
     Inr (SinglePlayerResultsPage
       [\<lparr>a_question = ''2 + 2?'', correct = ''4'', selected = ''4'', is_correct = True\<rparr>,
        \<lparr>a_question = ''Capital of France?'', correct = ''Paris'', selected = ''Rome'',
         is_correct = False\<rparr>,
        \<lparr>a_question = ''Largest planet?'', correct = [], selected = [], is_correct = True\<rparr>]
       2 4) \<and>
   form_get [(''total_questions'', ''10''), (''q0'', [])] ''total_questions'' = Some ''10'' \<and>
   py_int 4300 ''10'' = Some 10 \<and>
   single_player_results 4300 [(''total_questions'', ''10''), (''q0'', [])] =
     Inr (SinglePlayerResultsPage [] 0 10) \<and>
   form_get [(''total_questions'', ''ten'')] ''total_questions'' = Some ''ten'' \<and>
   py_int 4300 ''ten'' = None \<and>
   single_player_results 4300 [(''total_questions'', ''ten'')] = Inl ValueError \<and>
   form_get [(''q0'', ''Q1||A||B'')] ''total_questions'' = None \<and>
   single_player_results 4300 [(''q0'', ''Q1||A||B'')] =
     Inr (SinglePlayerResultsPage
       [\<lparr>a_question = ''Q1'', correct = ''A'', selected = ''B'', is_correct = False\<rparr>] 0 0) \<and>
   CHR ''|'' \<notin> set ''Q1'' \<and> CHR ''|'' \<notin> set ''A'' \<and> CHR ''|'' \<notin> set ''B'' \<and>
   split (''Q1'' @ ''||'' @ ''A'' @ ''||'' @ ''B'') = [''Q1'', ''A'', ''B''] \<and>
   split ''Largest planet?'' = [''Largest planet?'']"
proof -
  let ?f0 = "[(''total_questions'', ''10''), (''q0'', [])]"
  let ?f2 = "[(''total_questions'', ''ten'')]"
  let ?f3 = "[(''q0'', ''Q1||A||B'')]"
  have g: "form_get example_single_form ''total_questions'' = Some ''4''" by code_simp
  have i: "py_int 4300 ''4'' = Some 4" by code_simp
  have e: "map (\<lambda>k. case split (the (form_get example_single_form k)) of
                      [q, c, s] \<Rightarrow>
                        \<lparr>a_question = q, correct = c, selected = s, is_correct = (s = c)\<rparr>
                    | _ \<Rightarrow> \<lparr>a_question = the (form_get example_single_form k), correct = [],
                            selected = [], is_correct = True\<rparr>)
             (filter (\<lambda>k. form_get example_single_form k \<notin> {None, Some []})
                (sort (filter (\<lambda>k. startswith k ''q'') (form_keys example_single_form)))) =
       [\<lparr>a_question = ''2 + 2?'', correct = ''4'', selected = ''4'', is_correct = True\<rparr>,
        \<lparr>a_question = ''Capital of France?'', correct = ''Paris'', selected = ''Rome'',
         is_correct = False\<rparr>,
        \<lparr>a_question = ''Largest planet?'', correct = [], selected = [], is_correct = True\<rparr>]"
    by code_simp
  have c: "length (filter (\<lambda>k. case split (the (form_get example_single_form k)) of
                                  [q, c, s] \<Rightarrow> s = c | _ \<Rightarrow> True)
             (filter (\<lambda>k. form_get example_single_form k \<notin> {None, Some []})
                (sort (filter (\<lambda>k. startswith k ''q'') (form_keys example_single_form))))) = 2"
    by code_simp
  have r: "single_player_results 4300 example_single_form =
     Inr (SinglePlayerResultsPage
       [\<lparr>a_question = ''2 + 2?'', correct = ''4'', selected = ''4'', is_correct = True\<rparr>,
        \<lparr>a_question = ''Capital of France?'', correct = ''Paris'', selected = ''Rome'',
         is_correct = False\<rparr>,
        \<lparr>a_question = ''Largest planet?'', correct = [], selected = [], is_correct = True\<rparr>]
       2 4)"
    using single_player_score_and_total [THEN conjunct1, of example_single_form "''4''" 4300 4] g i
    unfolding e c by simp
  have g0: "form_get ?f0 ''total_questions'' = Some ''10''" by code_simp
  have i0: "py_int 4300 ''10'' = Some 10" by code_simp
  have k0: "\<forall>k \<in> set (form_keys ?f0). startswith k ''q'' \<longrightarrow> form_get ?f0 k = Some []"
    by code_simp
  have r0: "single_player_results 4300 ?f0 = Inr (SinglePlayerResultsPage [] 0 10)"
    using single_player_score_and_total [of ?f0 "''10''" 4300 10] g0 i0 k0 by simp
  have g2: "form_get ?f2 ''total_questions'' = Some ''ten''" by code_simp
  have i2: "py_int 4300 ''ten'' = None" by code_simp
  have r2: "single_player_results 4300 ?f2 = Inl ValueError"
    using single_player_score_and_total [of ?f2 "''ten''" 4300 0] g2 i2 by simp
  have g3: "form_get ?f3 ''total_questions'' = None" by code_simp
  have e3: "map (\<lambda>k. case split (the (form_get ?f3 k)) of
                      [q, c, s] \<Rightarrow>
                        \<lparr>a_question = q, correct = c, selected = s, is_correct = (s = c)\<rparr>
                    | _ \<Rightarrow> \<lparr>a_question = the (form_get ?f3 k), correct = [],
                            selected = [], is_correct = True\<rparr>)
             (filter (\<lambda>k. form_get ?f3 k \<notin> {None, Some []})
                (sort (filter (\<lambda>k. startswith k ''q'') (form_keys ?f3)))) =
       [\<lparr>a_question = ''Q1'', correct = ''A'', selected = ''B'', is_correct = False\<rparr>]"
    by code_simp
  have c3: "length (filter (\<lambda>k. case split (the (form_get ?f3 k)) of
                                  [q, c, s] \<Rightarrow> s = c | _ \<Rightarrow> True)
             (filter (\<lambda>k. form_get ?f3 k \<notin> {None, Some []})
                (sort (filter (\<lambda>k. startswith k ''q'') (form_keys ?f3))))) = 0"
    by code_simp
  have r3: "single_player_results 4300 ?f3 =
     Inr (SinglePlayerResultsPage
       [\<lparr>a_question = ''Q1'', correct = ''A'', selected = ''B'', is_correct = False\<rparr>] 0 0)"
    using single_player_score_and_total [THEN conjunct1, of ?f3 "[]" 4300 0] g3
    unfolding e3 c3 by simp
  have n: "CHR ''|'' \<notin> set ''Q1'' \<and> CHR ''|'' \<notin> set ''A'' \<and> CHR ''|'' \<notin> set ''B''"
    by simp
  have p: "split (''Q1'' @ ''||'' @ ''A'' @ ''||'' @ ''B'') = [''Q1'', ''A'', ''B'']"
    using single_player_score_and_total
      [THEN conjunct2, THEN conjunct2, THEN conjunct2, THEN conjunct1, rule_format, OF n] .
  have p1: "split ''Largest planet?'' = [''Largest planet?'']"
    using single_player_score_and_total
      [THEN conjunct2, THEN conjunct2, THEN conjunct2, THEN conjunct2, of "''Largest planet?''"]
    by simp
  show ?thesis
    using g i r g0 i0 r0 g2 i2 r2 g3 r3 n p p1 by (intro conjI) simp_all
qed

text \<open>
  The claim as stated fails: a value with no separator is an entry with no selection and
  adds 1 to the score, and so does a wrong selection sent with a question that holds the
  separator.
\<close>

theorem unselected_entry_scores_counterexample:
  "single_player_results 4300 [(''total_questions'', ''1''), (''q0'', ''2 + 2?'')] =
     Inr (SinglePlayerResultsPage
       [\<lparr>a_question = ''2 + 2?'', correct = [], selected = [], is_correct = True\<rparr>] 1 1) \<and>
   single_player_results 4300 [(''total_questions'', ''1''), (''q0'', ''a || b?||OR||AND'')] =
     Inr (SinglePlayerResultsPage
       [\<lparr>a_question = ''a || b?||OR||AND'', correct = [], selected = [], is_correct = True\<rparr>]
       1 1)"
  by code_simp

section \<open>The score on the leaderboard\<close>

lemma dict_set_member: "(k, v) \<in> set (dict_set k v d)"
  by (induction d) auto

lemma sorted_reverse_set: "set (sorted_reverse f xs) = set xs"
  by (simp add: sorted_reverse_def)

lemma room_results_ok:
  assumes "dict_get ROOMS code = Some room"
  shows "\<exists>details. room_results code uo ROOMS =
      (RoomResultsPage code (sorted_reverse score (player_rows room)) details uo
         (length (questions room)), ROOMS)"
  using assms by (simp add: room_results_def Let_def)

lemma player_rows_member:
  "p \<in> set (players room) \<Longrightarrow>
   \<lparr>username = fst p, score = length (filter is_correct (dict_values (answers (snd p)))),
    row_submitted = submitted (snd p)\<rparr> \<in> set (player_rows room)"
  by (force simp: player_rows_def)

lemma submitted_score:
  "length (filter is_correct (dict_values
      (submit_answers form (filter (\<lambda>k. startswith k ''q'') (form_keys form)) []))) =
   length (filter (\<lambda>k. case split (the (form_get form k)) of
                          [q, c, s] \<Rightarrow> s = c | _ \<Rightarrow> True)
     (filter (\<lambda>k. form_get form k \<notin> {None, Some []})
        (filter (\<lambda>k. startswith k ''q'') (form_keys form))))"
  by (simp only: submit_answers_values count_correct_answers)

lemma submitted_answers:
  "submit_answers form (filter (\<lambda>k. startswith k ''q'') (form_keys form)) [] =
   map (\<lambda>k. (k, case split (the (form_get form k)) of
                   [q, c, s] \<Rightarrow> \<lparr>a_question = q, correct = c, selected = s, is_correct = (s = c)\<rparr>
                 | _ \<Rightarrow> \<lparr>a_question = the (form_get form k), correct = [], selected = [],
                         is_correct = True\<rparr>))
     (filter (\<lambda>k. form_get form k \<notin> {None, Some []})
        (filter (\<lambda>k. startswith k ''q'') (form_keys form)))"
proof -
  have "submit_answers form (filter (\<lambda>k. startswith k ''q'') (form_keys form)) [] =
      [] @ map (\<lambda>k. (k, answer_of (the (form_get form k))))
        (filter (\<lambda>k. form_get form k \<notin> {None, Some []})
           (filter (\<lambda>k. startswith k ''q'') (form_keys form)))"
    by (rule submit_answers_eq) (simp_all add: form_keys_distinct dict_keys_def)
  then show ?thesis
    by (simp only: append_Nil answer_of_split)
qed

lemma example_form3_results:
  "form_get example_form3 ''username'' = Some ''Alice'' \<and>
       room_results ''AAAAAA'' None (snd (room_submit ''AAAAAA'' example_form3 example_rooms)) =
         (RoomResultsPage ''AAAAAA'' [\<lparr>username = ''Alice'', score = 3, row_submitted = True\<rparr>,
        \<lparr>username = ''Bob'', score = 0, row_submitted = False\<rparr>] [] None 2,
          snd (room_submit ''AAAAAA'' example_form3 example_rooms)) \<and> length (questions example_room) = 2"
  by code_simp

text \<open>
  Claim C10. The row of each player holds as score the number of entries of the player's
  stored answers whose \<open>is_correct\<close> is true. \<^verbatim>\<open>room_submit\<close> stores one entry for
  each key of the form that starts with "q" and has a non-empty value: for a value that
  splits at "||" into exactly three pieces, the pieces with \<open>is_correct\<close> true when the
  third, the selection, equals the second, the correct answer the client sent; for any
  other value an entry with both empty and \<open>is_correct\<close> true. The score is the number
  of those values that count. The number of questions of the room does not bound it: in
  the sample room, which has two questions, a form with three matching entries gives the
  score 3.
\<close>

theorem leaderboard_score_counts_client_matches:
  "(dict_get ROOMS code = Some room \<longrightarrow>
      (\<exists>rows details.
         room_results code uo ROOMS =
           (RoomResultsPage code rows details uo (length (questions room)), ROOMS) \<and>
         (\<forall>p \<in> set (players room). \<exists>r \<in> set rows. username r = fst p \<and>
            score r = length (filter is_correct (dict_values (answers (snd p))))))) \<and>
   (dict_get ROOMS code = Some room \<and> form_get form ''username'' = Some u \<and>
    dict_contains u (players room) \<longrightarrow>
      (\<exists>room' rows details.
         dict_get (snd (room_submit code form ROOMS)) code = Some room' \<and>
         dict_get (players room') u =
           Some \<lparr>answers =
                   map (\<lambda>k. (k, case split (the (form_get form k)) of
                                   [q, c, s] \<Rightarrow>
                                     \<lparr>a_question = q, correct = c, selected = s,
                                      is_correct = (s = c)\<rparr>
                                 | _ \<Rightarrow> \<lparr>a_question = the (form_get form k), correct = [],
                                         selected = [], is_correct = True\<rparr>))
                     (filter (\<lambda>k. form_get form k \<notin> {None, Some []})
                        (filter (\<lambda>k. startswith k ''q'') (form_keys form))),
                 submitted = True\<rparr> \<and>
         room_results code uo (snd (room_submit code form ROOMS)) =
           (RoomResultsPage code rows details uo (length (questions room)),
            snd (room_submit code form ROOMS)) \<and>
         (\<exists>r \<in> set rows. username r = u \<and> row_submitted r \<and>
            score r =
              length (filter (\<lambda>k. case split (the (form_get form k)) of
                                     [q, c, s] \<Rightarrow> s = c | _ \<Rightarrow> True)
                (filter (\<lambda>k. form_get form k \<notin> {None, Some []})
                   (filter (\<lambda>k. startswith k ''q'') (form_keys form))))))) \<and>
   (CHR ''|'' \<notin> set q \<and> CHR ''|'' \<notin> set c \<and> CHR ''|'' \<notin> set sel \<longrightarrow>
      split (q @ ''||'' @ c @ ''||'' @ sel) = [q, c, sel]) \<and>
   (CHR ''|'' \<notin> set v \<longrightarrow> split v = [v]) \<and>
   (\<exists>rows details.
      form_get example_form3 ''username'' = Some ''Alice'' \<and>
      room_results ''AAAAAA'' None (snd (room_submit ''AAAAAA'' example_form3 example_rooms)) =
        (RoomResultsPage ''AAAAAA'' rows details None (length (questions example_room)),
         snd (room_submit ''AAAAAA'' example_form3 example_rooms)) \<and>
      (\<exists>r \<in> set rows. username r = ''Alice'' \<and> length (questions example_room) < score r))"
proof (intro conjI impI)
  assume room: "dict_get ROOMS code = Some room"
  from room_results_ok [OF room, of uo] obtain details where
    "room_results code uo ROOMS =
      (RoomResultsPage code (sorted_reverse score (player_rows room)) details uo
         (length (questions room)), ROOMS)" ..
  moreover have "\<forall>p \<in> set (players room).
      \<exists>r \<in> set (sorted_reverse score (player_rows room)). username r = fst p \<and>
        score r = length (filter is_correct (dict_values (answers (snd p))))"
  proof
    fix p assume "p \<in> set (players room)"
    from player_rows_member [OF this] show
      "\<exists>r \<in> set (sorted_reverse score (player_rows room)). username r = fst p \<and>
        score r = length (filter is_correct (dict_values (answers (snd p))))"
      unfolding sorted_reverse_set by (rule rev_bexI) simp
  qed
  ultimately show "\<exists>rows details.
         room_results code uo ROOMS =
           (RoomResultsPage code rows details uo (length (questions room)), ROOMS) \<and>
         (\<forall>p \<in> set (players room). \<exists>r \<in> set rows. username r = fst p \<and>
            score r = length (filter is_correct (dict_values (answers (snd p)))))"
    by blast
next
  assume a: "dict_get ROOMS code = Some room \<and> form_get form ''username'' = Some u \<and>
    dict_contains u (players room)"
  let ?ans = "submit_answers form (filter (\<lambda>k. startswith k ''q'') (form_keys form)) []"
  let ?stored = "map (\<lambda>k. (k, case split (the (form_get form k)) of
                                   [q, c, s] \<Rightarrow>
                                     \<lparr>a_question = q, correct = c, selected = s,
                                      is_correct = (s = c)\<rparr>
                                 | _ \<Rightarrow> \<lparr>a_question = the (form_get form k), correct = [],
                                         selected = [], is_correct = True\<rparr>))
                     (filter (\<lambda>k. form_get form k \<notin> {None, Some []})
                        (filter (\<lambda>k. startswith k ''q'') (form_keys form)))"
  let ?R = "snd (room_submit code form ROOMS)"
  let ?n = "length (filter (\<lambda>k. case split (the (form_get form k)) of
                                     [q, c, s] \<Rightarrow> s = c | _ \<Rightarrow> True)
                (filter (\<lambda>k. form_get form k \<notin> {None, Some []})
                   (filter (\<lambda>k. startswith k ''q'') (form_keys form))))"
  from a room_submit_stored [of ROOMS code room form u] obtain room' where
    g: "dict_get ?R code = Some room'" and q: "questions room' = questions room"
    and p: "players room' = dict_set u \<lparr>answers = ?ans, submitted = True\<rparr> (players room)"
    and s: "dict_get (players room') u = Some \<lparr>answers = ?ans, submitted = True\<rparr>"
    by blast
  have s': "dict_get (players room') u = Some \<lparr>answers = ?stored, submitted = True\<rparr>"
    using s by (simp only: submitted_answers)
  from room_results_ok [OF g, of uo] obtain details where
    r: "room_results code uo ?R =
      (RoomResultsPage code (sorted_reverse score (player_rows room')) details uo
         (length (questions room)), ?R)"
    unfolding q ..
  have "(u, \<lparr>answers = ?ans, submitted = True\<rparr>) \<in> set (players room')"
    unfolding p by (rule dict_set_member)
  from player_rows_member [OF this]
  have "\<lparr>username = u, score = ?n, row_submitted = True\<rparr> \<in> set (player_rows room')"
    by (simp add: submitted_score)
  then have "\<exists>r \<in> set (sorted_reverse score (player_rows room')).
      username r = u \<and> row_submitted r \<and> score r = ?n"
    unfolding sorted_reverse_set by (rule rev_bexI) simp
  with g s' r show "\<exists>room' rows details.
         dict_get ?R code = Some room' \<and>
         dict_get (players room') u = Some \<lparr>answers = ?stored, submitted = True\<rparr> \<and>
         room_results code uo ?R =
           (RoomResultsPage code rows details uo (length (questions room)), ?R) \<and>
         (\<exists>r \<in> set rows. username r = u \<and> row_submitted r \<and> score r = ?n)"
    by blast
next
  assume "CHR ''|'' \<notin> set q \<and> CHR ''|'' \<notin> set c \<and> CHR ''|'' \<notin> set sel"
  then show "split (q @ ''||'' @ c @ ''||'' @ sel) = [q, c, sel]"
    by (intro split_three) simp_all
next
  assume "CHR ''|'' \<notin> set v"
  then show "split v = [v]"
    by (rule split_one)
next
  show "\<exists>rows details.
      form_get example_form3 ''username'' = Some ''Alice'' \<and>
      room_results ''AAAAAA'' None (snd (room_submit ''AAAAAA'' example_form3 example_rooms)) =
        (RoomResultsPage ''AAAAAA'' rows details None (length (questions example_room)),
         snd (room_submit ''AAAAAA'' example_form3 example_rooms)) \<and>
      (\<exists>r \<in> set rows. username r = ''Alice'' \<and> length (questions example_room) < score r)"
    using example_form3_results
    by (intro exI [of _ "[\<lparr>username = ''Alice'', score = 3, row_submitted = True\<rparr>,
        \<lparr>username = ''Bob'', score = 0, row_submitted = False\<rparr>]"] exI [of _ "[]"]) simp
qed

theorem leaderboard_score_counts_client_matches_witness:
  "dict_get example_rooms ''AAAAAA'' = Some example_room \<and>
   form_get example_form1 ''username'' = Some ''Alice'' \<and>
   dict_contains ''Alice'' (players example_room) \<and>
   (\<exists>rows details.
      room_results ''AAAAAA'' None (snd (room_submit ''AAAAAA'' example_form1 example_rooms)) =
        (RoomResultsPage ''AAAAAA'' rows details None (length (questions example_room)),
         snd (room_submit ''AAAAAA'' example_form1 example_rooms)) \<and>
      (\<exists>r \<in> set rows. username r = ''Alice'' \<and> row_submitted r \<and> score r = 0)) \<and>
   form_get example_form4 ''username'' = Some ''Bob'' \<and>
   dict_contains ''Bob'' (players example_room) \<and>
   (\<exists>room' rows details.
      dict_get (snd (room_submit ''AAAAAA'' example_form4 example_rooms)) ''AAAAAA'' = Some room' \<and>
      dict_get (players room') ''Bob'' =
        Some \<lparr>answers =
           [(''q0'', \<lparr>a_question = ''2 + 2?'', correct = ''4'', selected = ''22'',
                      is_correct = False\<rparr>),
            (''q1'', \<lparr>a_question = ''Capital of France?'', correct = ''Paris'',
                      selected = ''Paris'', is_correct = True\<rparr>),
            (''q2'', \<lparr>a_question = ''Largest planet?'', correct = [], selected = [],
                      is_correct = True\<rparr>)],
          submitted = True\<rparr> \<and>
      room_results ''AAAAAA'' None (snd (room_submit ''AAAAAA'' example_form4 example_rooms)) =
        (RoomResultsPage ''AAAAAA'' rows details None (length (questions example_room)),
         snd (room_submit ''AAAAAA'' example_form4 example_rooms)) \<and>
      (\<exists>r \<in> set rows. username r = ''Bob'' \<and> row_submitted r \<and> score r = 2)) \<and>
   CHR ''|'' \<notin> set ''2 + 2?'' \<and> CHR ''|'' \<notin> set ''4'' \<and> CHR ''|'' \<notin> set ''22'' \<and>
   split (''2 + 2?'' @ ''||'' @ ''4'' @ ''||'' @ ''22'') = [''2 + 2?'', ''4'', ''22''] \<and>
   split ''Largest planet?'' = [''Largest planet?'']"
proof -
  note t = leaderboard_score_counts_client_matches
  have cnt1: "length (filter (\<lambda>k. case split (the (form_get example_form1 k)) of
                                     [q, c, s] \<Rightarrow> s = c | _ \<Rightarrow> True)
                (filter (\<lambda>k. form_get example_form1 k \<notin> {None, Some []})
                   (filter (\<lambda>k. startswith k ''q'') (form_keys example_form1)))) = 0"
    by code_simp
  have r1: "\<exists>rows details.
      room_results ''AAAAAA'' None (snd (room_submit ''AAAAAA'' example_form1 example_rooms)) =
        (RoomResultsPage ''AAAAAA'' rows details None (length (questions example_room)),
         snd (room_submit ''AAAAAA'' example_form1 example_rooms)) \<and>
      (\<exists>r \<in> set rows. username r = ''Alice'' \<and> row_submitted r \<and> score r = 0)"
    using t [THEN conjunct2, THEN conjunct1, of example_rooms "''AAAAAA''" example_room
        example_form1 "''Alice''" None]
      example_rooms_get form_get_example1 example_room_alice
    unfolding cnt1 by blast
  have g4: "form_get example_form4 ''username'' = Some ''Bob''" by code_simp
  have b4: "dict_contains ''Bob'' (players example_room)" by code_simp
  have cnt4: "length (filter (\<lambda>k. case split (the (form_get example_form4 k)) of
                                     [q, c, s] \<Rightarrow> s = c | _ \<Rightarrow> True)
                (filter (\<lambda>k. form_get example_form4 k \<notin> {None, Some []})
                   (filter (\<lambda>k. startswith k ''q'') (form_keys example_form4)))) = 2"
    by code_simp
  have st4: "map (\<lambda>k. (k, case split (the (form_get example_form4 k)) of
                                   [q, c, s] \<Rightarrow>
                                     \<lparr>a_question = q, correct = c, selected = s,
                                      is_correct = (s = c)\<rparr>
                                 | _ \<Rightarrow> \<lparr>a_question = the (form_get example_form4 k),
                                         correct = [], selected = [], is_correct = True\<rparr>))
                     (filter (\<lambda>k. form_get example_form4 k \<notin> {None, Some []})
                        (filter (\<lambda>k. startswith k ''q'') (form_keys example_form4))) =
           [(''q0'', \<lparr>a_question = ''2 + 2?'', correct = ''4'', selected = ''22'',
                      is_correct = False\<rparr>),
            (''q1'', \<lparr>a_question = ''Capital of France?'', correct = ''Paris'',
                      selected = ''Paris'', is_correct = True\<rparr>),
            (''q2'', \<lparr>a_question = ''Largest planet?'', correct = [], selected = [],
                      is_correct = True\<rparr>)]"
    by code_simp
  have r4: "\<exists>room' rows details.
      dict_get (snd (room_submit ''AAAAAA'' example_form4 example_rooms)) ''AAAAAA'' = Some room' \<and>
      dict_get (players room') ''Bob'' =
        Some \<lparr>answers =
           [(''q0'', \<lparr>a_question = ''2 + 2?'', correct = ''4'', selected = ''22'',
                      is_correct = False\<rparr>),
            (''q1'', \<lparr>a_question = ''Capital of France?'', correct = ''Paris'',
                      selected = ''Paris'', is_correct = True\<rparr>),
            (''q2'', \<lparr>a_question = ''Largest planet?'', correct = [], selected = [],
                      is_correct = True\<rparr>)],
          submitted = True\<rparr> \<and>
      room_results ''AAAAAA'' None (snd (room_submit ''AAAAAA'' example_form4 example_rooms)) =
        (RoomResultsPage ''AAAAAA'' rows details None (length (questions example_room)),
         snd (room_submit ''AAAAAA'' example_form4 example_rooms)) \<and>
      (\<exists>r \<in> set rows. username r = ''Bob'' \<and> row_submitted r \<and> score r = 2)"
    using t [THEN conjunct2, THEN conjunct1, of example_rooms "''AAAAAA''" example_room
        example_form4 "''Bob''" None]
      example_rooms_get g4 b4
    unfolding cnt4 st4 by blast
  have n: "CHR ''|'' \<notin> set ''2 + 2?'' \<and> CHR ''|'' \<notin> set ''4'' \<and> CHR ''|'' \<notin> set ''22''"
    by simp
  have p: "split (''2 + 2?'' @ ''||'' @ ''4'' @ ''||'' @ ''22'') = [''2 + 2?'', ''4'', ''22'']"
    using t [THEN conjunct2, THEN conjunct2, THEN conjunct1, rule_format, OF n] .
  have p1: "split ''Largest planet?'' = [''Largest planet?'']"
    using t [THEN conjunct2, THEN conjunct2, THEN conjunct2, THEN conjunct1,
        of "''Largest planet?''"]
    by simp
  show ?thesis
    using example_rooms_get form_get_example1 example_room_alice r1 g4 b4 r4 n p p1
    by (intro conjI) simp_all
qed

section \<open>Creating a room\<close>

lemma gen_room_code_shape:
  "length (gen_room_code n rnd) = n"
  "set (gen_room_code n rnd) \<subseteq> set (ascii_uppercase @ digits)"
proof -
  have "secrets_choice (ascii_uppercase @ digits) r \<in> set (ascii_uppercase @ digits)" for r
    unfolding secrets_choice_def by (rule nth_mem) (simp add: ascii_uppercase_def digits_def)
  then show "set (gen_room_code n rnd) \<subseteq> set (ascii_uppercase @ digits)"
    by (auto simp: gen_room_code_def Let_def)
qed (simp add: gen_room_code_def Let_def)

lemma create_room_eq:
  "create_room rnd fetch d ROOMS =
     (RedirectResponse (''/room/'' @ gen_room_code 6 rnd),
      dict_set (gen_room_code 6 rnd)
        \<lparr>domain = (if dict_contains d CATEGORIES then d else ''general''),
         questions = fetch (if dict_contains d CATEGORIES then d else ''general''),
         players = [], created = True\<rparr> ROOMS)"
  by (simp add: create_room_def Let_def)

lemma create_rooms_fresh:
  "distinct (map (\<lambda>call. gen_room_code 6 (fst call)) calls) \<Longrightarrow>
   \<forall>call \<in> set calls. \<not> dict_contains (gen_room_code 6 (fst call)) ROOMS \<Longrightarrow>
   dict_keys (foldl (\<lambda>R (rnd, fetch, d). snd (create_room rnd fetch d R)) ROOMS calls) =
     dict_keys ROOMS @ map (\<lambda>call. gen_room_code 6 (fst call)) calls"
proof (induction calls arbitrary: ROOMS)
  case Nil
  then show ?case by simp
next
  case (Cons call calls)
  obtain rnd fetch d where call: "call = (rnd, fetch, d)" by (cases call) auto
  let ?R = "snd (create_room rnd fetch d ROOMS)"
  have keys: "dict_keys ?R = dict_keys ROOMS @ [gen_room_code 6 rnd]"
    using Cons.prems(2) by (simp add: call create_room_eq dict_keys_dict_set)
  have "\<not> dict_contains (gen_room_code 6 (fst c)) ?R" if c: "c \<in> set calls" for c
  proof -
    from c have "gen_room_code 6 (fst c) \<in> (\<lambda>call. gen_room_code 6 (fst call)) ` set calls"
      by (rule imageI)
    moreover from Cons.prems(1)
    have "gen_room_code 6 rnd \<notin> (\<lambda>call. gen_room_code 6 (fst call)) ` set calls"
      by (simp add: call)
    ultimately have "gen_room_code 6 (fst c) \<noteq> gen_room_code 6 rnd"
      by metis
    moreover from Cons.prems(2) c have "\<not> dict_contains (gen_room_code 6 (fst c)) ROOMS"
      by simp
    ultimately show ?thesis
      by (simp add: dict_contains_def keys)
  qed
  then have "\<forall>c \<in> set calls. \<not> dict_contains (gen_room_code 6 (fst c)) ?R"
    by blast
  with Cons.IH [of ?R] Cons.prems(1) show ?case
    by (simp add: call keys)
qed

text \<open>
  Claim C1, as the code has it. \<^verbatim>\<open>create_room\<close> draws one code of six characters
  from the capital letters and the digits and stores the new room under it, without
  looking whether the code is registered. Every other code keeps its room. When the drawn
  code is not registered the room is appended and nothing is replaced; when it is
  registered, the room under it is replaced and the keys stay as they were. Creations in
  sequence whose drawn codes differ from each other and from the registered ones append one
  room each, under those codes.
\<close>

theorem create_room_stores_under_drawn_code:
  assumes "code = gen_room_code 6 rnd"
    and "new = \<lparr>domain = (if dict_contains d CATEGORIES then d else ''general''),
                questions = fetch (if dict_contains d CATEGORIES then d else ''general''),
                players = [], created = True\<rparr>"
    and "R' = snd (create_room rnd fetch d ROOMS)"
  shows "length code = 6 \<and> set code \<subseteq> set (ascii_uppercase @ digits) \<and>
    fst (create_room rnd fetch d ROOMS) = RedirectResponse (''/room/'' @ code) \<and>
    dict_get R' code = Some new \<and>
    (\<forall>c. c \<noteq> code \<longrightarrow> dict_get R' c = dict_get ROOMS c) \<and>
    (if dict_contains code ROOMS then dict_keys R' = dict_keys ROOMS
     else R' = ROOMS @ [(code, new)]) \<and>
    (distinct (map (\<lambda>call. gen_room_code 6 (fst call)) calls) \<and>
     (\<forall>call \<in> set calls. \<not> dict_contains (gen_room_code 6 (fst call)) ROOMS) \<longrightarrow>
       dict_keys (foldl (\<lambda>R (rnd, fetch, d). snd (create_room rnd fetch d R)) ROOMS calls) =
         dict_keys ROOMS @ map (\<lambda>call. gen_room_code 6 (fst call)) calls)"
proof -
  have R': "R' = dict_set code new ROOMS"
    by (simp add: assms create_room_eq)
  have "length code = 6" "set code \<subseteq> set (ascii_uppercase @ digits)"
    unfolding assms(1) by (rule gen_room_code_shape)+
  moreover have "fst (create_room rnd fetch d ROOMS) = RedirectResponse (''/room/'' @ code)"
    by (simp add: create_room_eq assms(1))
  moreover have "dict_get R' code = Some new"
    "\<forall>c. c \<noteq> code \<longrightarrow> dict_get R' c = dict_get ROOMS c"
    by (simp_all add: R' dict_get_dict_set)
  moreover have "if dict_contains code ROOMS then dict_keys R' = dict_keys ROOMS
     else R' = ROOMS @ [(code, new)]"
    by (simp add: R' dict_keys_dict_set dict_set_absent)
  ultimately show ?thesis
    using create_rooms_fresh [of calls ROOMS] by blast
qed

theorem create_room_stores_under_drawn_code_witness:
  "''AAAAAB'' = gen_room_code 6 (\<lambda>i. if i = 5 then 1 else 0) \<and>
   \<not> dict_contains ''AAAAAB'' example_rooms \<and>
   snd (create_room (\<lambda>i. if i = 5 then 1 else 0) (\<lambda>d. example_questions) ''movies'' example_rooms) =
     example_rooms @
       [(''AAAAAB'', \<lparr>domain = ''movies'', questions = example_questions, players = [],
                       created = True\<rparr>)] \<and>
   distinct (map (\<lambda>call. gen_room_code 6 (fst call)) example_calls) \<and>
   list_all (\<lambda>call. \<not> dict_contains (gen_room_code 6 (fst call)) example_rooms)
     example_calls \<and>
   dict_keys (foldl (\<lambda>R (rnd, fetch, d). snd (create_room rnd fetch d R)) example_rooms
       example_calls) =
     [''AAAAAA'', ''BBBBBB'', ''CCCCCC'']"
proof -
  let ?rnd = "\<lambda>i::nat. if i = 5 then 1 else 0 :: nat"
  let ?new = "\<lparr>domain = ''movies'', questions = example_questions, players = [],
                       created = True\<rparr>"
  have c: "''AAAAAB'' = gen_room_code 6 ?rnd" by code_simp
  have n: "?new = \<lparr>domain = (if dict_contains ''movies'' CATEGORIES then ''movies'' else ''general''),
                questions = (\<lambda>d. example_questions)
                   (if dict_contains ''movies'' CATEGORIES then ''movies'' else ''general''),
                players = [], created = True\<rparr>"
    by code_simp
  have f: "\<not> dict_contains ''AAAAAB'' example_rooms" by code_simp
  have d: "distinct (map (\<lambda>call. gen_room_code 6 (fst call)) example_calls)" by code_simp
  have a: "list_all (\<lambda>call. \<not> dict_contains (gen_room_code 6 (fst call)) example_rooms)
      example_calls"
    by code_simp
  have k: "dict_keys example_rooms @ map (\<lambda>call. gen_room_code 6 (fst call)) example_calls =
      [''AAAAAA'', ''BBBBBB'', ''CCCCCC'']"
    by code_simp
  note t = create_room_stores_under_drawn_code
    [OF c n refl, where ROOMS = example_rooms and calls = example_calls]
  have r: "snd (create_room ?rnd (\<lambda>d. example_questions) ''movies'' example_rooms) =
      example_rooms @ [(''AAAAAB'', ?new)]"
    using t f by simp
  have s: "dict_keys (foldl (\<lambda>R (rnd, fetch, d). snd (create_room rnd fetch d R)) example_rooms
       example_calls) = [''AAAAAA'', ''BBBBBB'', ''CCCCCC'']"
    using t d a unfolding k [symmetric] list_all_iff by blast
  show ?thesis
    using c f r d a s by (intro conjI)
qed

text \<open>
  The claim as stated fails: no code is drawn again. A draw that gives the code of the
  sample room replaces that room, and two creations with the same draw leave one room.
\<close>

theorem create_room_collision_counterexample:
  "dict_contains (gen_room_code 6 (\<lambda>i. 0)) example_rooms \<and>
   create_room (\<lambda>i. 0) (\<lambda>d. []) ''tech'' example_rooms =
     (RedirectResponse ''/room/AAAAAA'',
      [(''AAAAAA'', \<lparr>domain = ''tech'', questions = [], players = [], created = True\<rparr>)]) \<and>
   length (snd (create_room (\<lambda>i. 0) (\<lambda>d. []) ''tech'' example_rooms)) = length example_rooms \<and>
   length (snd (create_room (\<lambda>i. 0) (\<lambda>d. []) ''tech''
             (snd (create_room (\<lambda>i. 0) (\<lambda>d. example_questions) ''general'' [])))) = 1"
  by code_simp

end
